theory Spec2Isabelle
  imports Main
begin

section \<open>Python values\<close>

text \<open>
  Exceptions of the Python run time that the module can raise or let through.
  \<open>ValueError\<close> carries its message: the module raises it twice, with different
  messages, and these are its configuration errors; pandas and numpy raise it with
  messages of their own. \<open>ExternalError\<close> stands for any exception raised inside the
  catalog library.
\<close>

datatype error =
    NameError string
  | ValueError string
  | KeyError string
  | IndexError
  | AttributeError
  | TypeError
  | RuntimeError
  | ExternalError string

text \<open>
  A cell of the materialised frame: a pandas timestamp (given by its POSIX seconds, the
  value its \<open>timestamp()\<close> method returns), the missing timestamp \<open>NaT\<close>, a number, or a
  string that does not spell a number. The numeric type \<open>'v\<close> is left open; rounding to
  32-bit floats is a parameter \<open>f32\<close> of the operations that convert.
\<close>

datatype 'v cell = Timestamp 'v | NaT | Number 'v | Text string

text \<open>
  The pandas frame: its column labels and its rows, each row holding one cell per
  column, in column order. The lookup of a label in a row is modelled for frames whose
  labels are unique: pandas answers a duplicated label with a sub-series, not with a
  cell, so every statement below that depends on what a lookup finds assumes
  \<open>distinct (columns df)\<close>.
\<close>

record 'v dataframe =
  columns :: "string list"
  rows :: "'v cell list list"

definition df_len :: "'v dataframe \<Rightarrow> nat" where
  \<comment> \<open>\<open>len(dataframe)\<close>\<close>
  "df_len df = length (rows df)"

definition df_iloc :: "'v dataframe \<Rightarrow> int \<Rightarrow> error + (string \<times> 'v cell) list" where
  \<comment> \<open>\<open>dataframe.iloc[index]\<close>: a negative index counts from the end; the row comes
      back as a series, its cells labelled by the columns.\<close>
  "df_iloc df index =
     (let n = int (length (rows df));
          j = (if index < 0 then n + index else index)
      in if 0 \<le> j \<and> j < n then Inr (zip (columns df) (rows df ! nat j))
         else Inl IndexError)"

definition series_getitem :: "(string \<times> 'v cell) list \<Rightarrow> string \<Rightarrow> error + 'v cell" where
  \<comment> \<open>\<open>row[col]\<close>\<close>
  "series_getitem row col =
     (case map_of row col of None \<Rightarrow> Inl (KeyError col) | Some v \<Rightarrow> Inr v)"

definition timestamp_method :: "'v cell \<Rightarrow> error + 'v" where
  \<comment> \<open>\<open>x.timestamp()\<close>: numbers and strings have no such method, and \<open>NaT\<close> refuses it.\<close>
  "timestamp_method x =
     (case x of
        Timestamp t \<Rightarrow> Inr t
      | NaT \<Rightarrow> Inl (ValueError ''NaTType does not support timestamp'')
      | Number v \<Rightarrow> Inl AttributeError
      | Text s \<Rightarrow> Inl AttributeError)"

fun series_getitems :: "(string \<times> 'v cell) list \<Rightarrow> string list \<Rightarrow> error + 'v cell list" where
  \<comment> \<open>\<open>[row[col] for col in cols]\<close>: the first failing lookup ends the comprehension.\<close>
  "series_getitems row [] = Inr []"
| "series_getitems row (col # cols) =
     (case series_getitem row col of
        Inl e \<Rightarrow> Inl e
      | Inr v \<Rightarrow>
          (case series_getitems row cols of
             Inl e \<Rightarrow> Inl e
           | Inr vs \<Rightarrow> Inr (v # vs)))"

section \<open>Arrays and tensors\<close>

text \<open>
  A tensor is a scalar or a sequence of tensors along its leading axis. Its shape is
  read along the first element of each axis, as the libraries do for rectangular data.
\<close>

datatype 'f tensor = Scalar 'f | Array "'f tensor list"

fun shape :: "'f tensor \<Rightarrow> nat list" where
  "shape (Scalar x) = []"
| "shape (Array []) = [0]"
| "shape (Array (t # ts)) = Suc (length ts) # shape t"

fun unbind :: "'f tensor \<Rightarrow> 'f tensor list" where
  \<comment> \<open>the slices along the leading axis, in order\<close>
  "unbind (Scalar x) = []"
| "unbind (Array ts) = ts"

fun np_array_float32 :: "('v \<Rightarrow> 'f) \<Rightarrow> 'v cell list \<Rightarrow> error + 'f list" where
  \<comment> \<open>\<open>np.array(values, dtype=np.float32)\<close> on a list of cells: a timestamp is no number,
      and a string that spells none cannot be converted.\<close>
  "np_array_float32 f32 [] = Inr []"
| "np_array_float32 f32 (c # cs) =
     (case c of
        Timestamp t \<Rightarrow> Inl TypeError
      | NaT \<Rightarrow> Inl TypeError
      | Text s \<Rightarrow>
          Inl (ValueError (''could not convert string to float: '' @ [CHR 0x27] @ s @ [CHR 0x27]))
      | Number v \<Rightarrow>
          (case np_array_float32 f32 cs of
             Inl e \<Rightarrow> Inl e
           | Inr vs \<Rightarrow> Inr (f32 v # vs)))"

definition torch_from_numpy :: "'f list \<Rightarrow> 'f tensor" where
  "torch_from_numpy vs = Array (map Scalar vs)"

definition torch_tensor_float32 :: "('v \<Rightarrow> 'f) \<Rightarrow> 'v cell \<Rightarrow> error + 'f tensor" where
  \<comment> \<open>\<open>torch.tensor(x, dtype=torch.float32)\<close> on a cell\<close>
  "torch_tensor_float32 f32 x =
     (case x of
        Number v \<Rightarrow> Inr (Scalar (f32 v))
      | Timestamp t \<Rightarrow> Inl TypeError
      | NaT \<Rightarrow> Inl TypeError
      | Text s \<Rightarrow> Inl TypeError)"

text \<open>
  Rounding of an integer to the nearest 32-bit float (24 significant bits, ties to the
  even neighbour), for magnitudes below the overflow threshold of the format. It is
  the conversion \<open>f32\<close> of the concrete runs below, whose cells hold integers.
\<close>

function bit_length :: "int \<Rightarrow> nat" where
  "bit_length a = (if a \<le> 0 then 0 else Suc (bit_length (a div 2)))"
  by pat_completeness auto
termination
  by (relation "measure nat") auto

declare bit_length.simps [simp del]

definition float32_of_int :: "int \<Rightarrow> int" where
  "float32_of_int v =
     (let a = \<bar>v\<bar>; n = bit_length a
      in if n \<le> 24 then v
         else let m = 2 ^ (n - 24);
                  q = a div m;
                  r = a mod m;
                  h = m div 2;
                  q' = (if h < r \<or> (r = h \<and> odd q) then q + 1 else q)
              in sgn v * (q' * m))"

definition torch_stack :: "'f tensor list \<Rightarrow> error + 'f tensor" where
  \<comment> \<open>\<open>torch.stack(ts)\<close>: a new leading axis; the list must be non-empty and its tensors
      of one shape.\<close>
  "torch_stack ts =
     (case ts of
        [] \<Rightarrow> Inl RuntimeError
      | t # us \<Rightarrow>
          if list_all (\<lambda>u. shape u = shape t) us then Inr (Array ts)
          else Inl RuntimeError)"

section \<open>Formatting the channel names\<close>

definition digit :: "nat \<Rightarrow> char" where
  "digit d = ''0123456789'' ! d"

fun str_nat :: "nat \<Rightarrow> string" where
  \<comment> \<open>\<open>str(i)\<close> for a non-negative integer\<close>
  "str_nat n = (if n < 10 then [digit n] else str_nat (n div 10) @ [digit (n mod 10)])"

declare str_nat.simps [simp del]

definition zfill :: "nat \<Rightarrow> string \<Rightarrow> string" where
  \<comment> \<open>\<open>s.zfill(width)\<close> on a string without a sign\<close>
  "zfill width s = replicate (width - length s) (CHR ''0'') @ s"

definition format_02d :: "nat \<Rightarrow> string" where
  \<comment> \<open>the format specification \<open>{i:02d}\<close>\<close>
  "format_02d i = zfill 2 (str_nat i)"

definition dec_val :: "string \<Rightarrow> nat" where
  \<comment> \<open>the number that a string of decimal digits denotes\<close>
  "dec_val s = foldl (\<lambda>a c. 10 * a + (of_char c - 48)) 0 s"

definition channel_variables :: "string \<Rightarrow> string list option" where
  \<comment> \<open>The branch on \<open>sensor_type\<close> of the constructor: the channel names that the
      branch appends to the primary descriptors; \<open>None\<close> is the final \<open>else\<close>.\<close>
  "channel_variables sensor =
     (if sensor = ''AMSU'' then Some (map (\<lambda>i. ''TMBR_000'' @ format_02d i) [1..<16])
      else if sensor = ''ATMS'' then Some (map (\<lambda>i. ''TMBR_000'' @ format_02d i) [1..<23])
      else if sensor = ''MHS'' then Some (map (\<lambda>i. ''TMBR_000'' @ format_02d i) [1..<6])
      else if sensor = ''IASI'' then Some (map (\<lambda>i. ''SCRA_'' @ zfill 5 (str_nat i)) [1..<617])
      else if sensor = ''CrIS'' then Some (map (\<lambda>i. ''SRAD01_'' @ zfill 5 (str_nat i)) [1..<432])
      else None)"

section \<open>The catalog library\<close>

text \<open>
  The calls the module makes into the catalog library, each of which may raise:
  \<open>DataCatalog(skip_manifest=...)\<close>, \<open>catalog[name]\<close>, \<open>dataset.load_manifest()\<close>
  (which updates the dataset; the updated handle is the result),
  \<open>dataset.sel(time=..., variables=...)\<close> and \<open>dataset.load_dataset(engine=...)\<close>.
  The module imports the library under \<open>try\<close>: after a failed import the name
  \<open>DataCatalog\<close> is unbound, which is the binding \<open>None\<close>.
\<close>

record ('c, 'h, 't, 'v) nnja =
  DataCatalog :: "bool \<Rightarrow> error + 'c"
  catalog_getitem :: "'c \<Rightarrow> string \<Rightarrow> error + 'h"
  load_manifest :: "'h \<Rightarrow> error + 'h"
  sel :: "'h \<Rightarrow> 't \<Rightarrow> string list \<Rightarrow> error + 'h"
  load_dataset :: "'h \<Rightarrow> string \<Rightarrow> error + 'v dataframe"

text \<open>The log of the calls made into the library, oldest first.\<close>

datatype 't call =
    Call_DataCatalog
  | Call_catalog_getitem string
  | Call_load_manifest
  | Call_sel 't "string list"
  | Call_load_dataset

type_synonym 't world = "'t call list"

definition ext ::
  "'t call \<Rightarrow> error + 'a \<Rightarrow> ('a \<Rightarrow> 't world \<Rightarrow> (error + 'b) \<times> 't world) \<Rightarrow>
   't world \<Rightarrow> (error + 'b) \<times> 't world" where
  \<comment> \<open>a call into the library with outcome \<open>r\<close>: it is logged, an exception ends the
      constructor, a result is passed on\<close>
  "ext c r k w = (case r of Inl e \<Rightarrow> (Inl e, w @ [c]) | Inr x \<Rightarrow> k x (w @ [c]))"

section \<open>The adapter\<close>

record ('c, 'h, 't, 'v) SensorDataset =
  dataset_name :: string
  time :: 't
  primary_descriptors :: "string list"
  additional_variables :: "string list"
  sensor_type :: string
  catalog :: 'c
  dataset :: 'h
  dataframe :: "'v dataframe"
  metadata_columns :: "string list"

definition missing_column :: "string \<Rightarrow> error" where
  \<comment> \<open>the configuration error for a primary descriptor that the frame lacks\<close>
  "missing_column col =
     ValueError (''The dataset must include a '' @ [CHR 0x27] @ col @ [CHR 0x27] @ '' column.'')"

definition unsupported_sensor :: "string \<Rightarrow> error" where
  \<comment> \<open>the configuration error for a sensor type outside the five branches\<close>
  "unsupported_sensor sensor = ValueError (''Unsupported sensor type: '' @ sensor)"

fun check_columns :: "string list \<Rightarrow> 'v dataframe \<Rightarrow> error + unit" where
  \<comment> \<open>the loop over \<open>primary_descriptors\<close> after materialisation\<close>
  "check_columns [] df = Inr ()"
| "check_columns (col # cols) df =
     (if col \<notin> set (columns df)
      then Inl (missing_column col)
      else check_columns cols df)"

definition SensorDataset_init ::
  "('c, 'h, 't, 'v) nnja option \<Rightarrow> string \<Rightarrow> 't \<Rightarrow> string list \<Rightarrow> string list \<Rightarrow> string \<Rightarrow>
   't world \<Rightarrow> (error + ('c, 'h, 't, 'v) SensorDataset) \<times> 't world" where
  \<comment> \<open>\<open>SensorDataset(dataset_name, time, primary_descriptors, additional_variables,
      sensor_type)\<close>, in a module whose binding of \<open>DataCatalog\<close> is \<open>binding\<close>. The five
      branches on the sensor type make the same call of \<open>sel\<close>, on the primary descriptors
      followed by the branch's channel names; the final \<open>else\<close> raises. An exception
      leaves no adapter behind: the caller never receives the object under construction.\<close>
  "SensorDataset_init binding name tm pd av sensor w =
     (case binding of
        None \<Rightarrow> (Inl (NameError ''DataCatalog''), w)
      | Some lib \<Rightarrow>
          ext Call_DataCatalog (DataCatalog lib True) (\<lambda>cat.
          ext (Call_catalog_getitem name) (catalog_getitem lib cat name) (\<lambda>ds0.
          ext Call_load_manifest (load_manifest lib ds0) (\<lambda>ds1.
            (case channel_variables sensor of
               None \<Rightarrow> (\<lambda>w'. (Inl (unsupported_sensor sensor), w'))
             | Some chans \<Rightarrow>
                 ext (Call_sel tm (pd @ chans)) (sel lib ds1 tm (pd @ chans)) (\<lambda>ds2.
                 ext Call_load_dataset (load_dataset lib ds2 ''pandas'') (\<lambda>df w'.
                   (case check_columns pd df of
                      Inl e \<Rightarrow> (Inl e, w')
                    | Inr u \<Rightarrow>
                        (Inr \<lparr> dataset_name = name, time = tm, primary_descriptors = pd,
                               additional_variables = av, sensor_type = sensor,
                               catalog = cat, dataset = ds2, dataframe = df,
                               metadata_columns = filter (\<lambda>col. col \<notin> set pd) (columns df) \<rparr>,
                         w')))))))) w)"

definition SensorDataset_len ::
  "('c, 'h, 't, 'v) SensorDataset \<Rightarrow> 't world \<Rightarrow> (nat \<times> ('c, 'h, 't, 'v) SensorDataset) \<times> 't world" where
  \<comment> \<open>\<open>len(self)\<close>: the result, the adapter and the log afterwards\<close>
  "SensorDataset_len self w = ((df_len (dataframe self), self), w)"

definition getitem_sample ::
  "('v \<Rightarrow> 'f) \<Rightarrow> ('c, 'h, 't, 'v) SensorDataset \<Rightarrow> int \<Rightarrow> error + (string \<times> 'f tensor) list" where
  \<comment> \<open>the body of \<open>__getitem__\<close>, statement by statement; the returned dictionary is the
      list of its items in insertion order\<close>
  "getitem_sample f32 self index =
     (case df_iloc (dataframe self) index of Inl e \<Rightarrow> Inl e | Inr row \<Rightarrow>
     (case series_getitem row ''OBS_TIMESTAMP'' of Inl e \<Rightarrow> Inl e | Inr x \<Rightarrow>
     (case timestamp_method x of Inl e \<Rightarrow> Inl e | Inr tm \<Rightarrow>
     (case series_getitem row ''LAT'' of Inl e \<Rightarrow> Inl e | Inr latitude \<Rightarrow>
     (case series_getitem row ''LON'' of Inl e \<Rightarrow> Inl e | Inr longitude \<Rightarrow>
     (case series_getitems row (metadata_columns self) of Inl e \<Rightarrow> Inl e | Inr vals \<Rightarrow>
     (case np_array_float32 f32 vals of Inl e \<Rightarrow> Inl e | Inr metadata \<Rightarrow>
     (case torch_tensor_float32 f32 latitude of Inl e \<Rightarrow> Inl e | Inr t_lat \<Rightarrow>
     (case torch_tensor_float32 f32 longitude of Inl e \<Rightarrow> Inl e | Inr t_lon \<Rightarrow>
        Inr [(''timestamp'', Scalar (f32 tm)),
             (''latitude'', t_lat),
             (''longitude'', t_lon),
             (''metadata'', torch_from_numpy metadata)])))))))))"

definition SensorDataset_getitem ::
  "('v \<Rightarrow> 'f) \<Rightarrow> ('c, 'h, 't, 'v) SensorDataset \<Rightarrow> int \<Rightarrow> 't world \<Rightarrow>
   ((error + (string \<times> 'f tensor) list) \<times> ('c, 'h, 't, 'v) SensorDataset) \<times> 't world" where
  \<comment> \<open>\<open>self[index]\<close>: the result, the adapter and the log afterwards\<close>
  "SensorDataset_getitem f32 self index w = ((getitem_sample f32 self index, self), w)"

section \<open>The batch stacker\<close>

definition dict_getitem :: "(string \<times> 'a) list \<Rightarrow> string \<Rightarrow> error + 'a" where
  \<comment> \<open>\<open>item[key]\<close>\<close>
  "dict_getitem item key =
     (case map_of item key of None \<Rightarrow> Inl (KeyError key) | Some v \<Rightarrow> Inr v)"

fun dict_getitems :: "(string \<times> 'a) list list \<Rightarrow> string \<Rightarrow> error + 'a list" where
  \<comment> \<open>\<open>[item[key] for item in batch]\<close>\<close>
  "dict_getitems [] key = Inr []"
| "dict_getitems (item # items) key =
     (case dict_getitem item key of
        Inl e \<Rightarrow> Inl e
      | Inr v \<Rightarrow>
          (case dict_getitems items key of
             Inl e \<Rightarrow> Inl e
           | Inr vs \<Rightarrow> Inr (v # vs)))"

fun collate_keys ::
  "string list \<Rightarrow> (string \<times> 'f tensor) list list \<Rightarrow> error + (string \<times> 'f tensor) list" where
  \<comment> \<open>the dictionary comprehension, key by key\<close>
  "collate_keys [] batch = Inr []"
| "collate_keys (key # keys) batch =
     (case dict_getitems batch key of
        Inl e \<Rightarrow> Inl e
      | Inr ts \<Rightarrow>
          (case torch_stack ts of
             Inl e \<Rightarrow> Inl e
           | Inr t \<Rightarrow>
               (case collate_keys keys batch of
                  Inl e \<Rightarrow> Inl e
                | Inr r \<Rightarrow> Inr ((key, t) # r))))"

definition collate_fn :: "(string \<times> 'f tensor) list list \<Rightarrow> error + (string \<times> 'f tensor) list" where
  "collate_fn batch =
     (case batch of
        [] \<Rightarrow> Inl IndexError
      | item0 # items \<Rightarrow> collate_keys (map fst item0) batch)"

section \<open>A small catalog for concrete runs\<close>

text \<open>
  A catalog that knows one dataset, \<open>amsu\<close>, whose variables are \<open>OBS_TIMESTAMP\<close>,
  \<open>LAT\<close>, \<open>LON\<close> and the channels named \<open>TMBR_...\<close>. It selects the variables asked
  for that the dataset has (each once) and materialises two rows: row \<open>k\<close> holds the
  timestamp \<open>1700000000 + k\<close> under \<open>OBS_TIMESTAMP\<close> and the number \<open>k\<close> under every
  other column.
\<close>

definition demo_cell :: "nat \<Rightarrow> string \<Rightarrow> int cell" where
  "demo_cell k col =
     (if col = ''OBS_TIMESTAMP'' then Timestamp (1700000000 + int k) else Number (int k))"

definition demo_available :: "string \<Rightarrow> bool" where
  "demo_available v \<longleftrightarrow>
     v = ''OBS_TIMESTAMP'' \<or> v = ''LAT'' \<or> v = ''LON'' \<or> take 5 v = ''TMBR_''"

definition demo_frame :: "string list \<Rightarrow> int dataframe" where
  "demo_frame variables =
     \<lparr> columns = remdups variables,
       rows = map (\<lambda>k. map (demo_cell k) (remdups variables)) [0..<2] \<rparr>"

definition demo_lib :: "(unit, string list, string, int) nnja" where
  "demo_lib =
     \<lparr> DataCatalog = (\<lambda>skip_manifest. Inr ()),
       catalog_getitem = (\<lambda>cat name. if name = ''amsu'' then Inr [] else Inl (KeyError name)),
       load_manifest = (\<lambda>ds. Inr ds),
       sel = (\<lambda>ds tm variables. Inr (filter demo_available variables)),
       load_dataset = (\<lambda>ds engine. Inr (demo_frame ds)) \<rparr>"

text \<open>
  The adapter that construction yields on this catalog for the sensor type \<open>MHS\<close> and
  the primary descriptors \<open>OBS_TIMESTAMP\<close>, \<open>LAT\<close>, \<open>LON\<close>.
\<close>

definition demo_variables :: "string list" where
  "demo_variables = [''OBS_TIMESTAMP'', ''LAT'', ''LON'', ''TMBR_00001'', ''TMBR_00002'',
                     ''TMBR_00003'', ''TMBR_00004'', ''TMBR_00005'']"

definition demo_adapter :: "(unit, string list, string, int) SensorDataset" where
  "demo_adapter =
     \<lparr> dataset_name = ''amsu'', time = ''2021-01-01'',
       primary_descriptors = [''OBS_TIMESTAMP'', ''LAT'', ''LON''],
       additional_variables = [], sensor_type = ''MHS'', catalog = (),
       dataset = demo_variables, dataframe = demo_frame demo_variables,
       metadata_columns = [''TMBR_00001'', ''TMBR_00002'', ''TMBR_00003'',
                           ''TMBR_00004'', ''TMBR_00005''] \<rparr>"

text \<open>
  The adapter that construction yields when \<open>OBS_TIMESTAMP\<close> is the only primary
  descriptor: the frame has no \<open>LAT\<close> and no \<open>LON\<close> column.
\<close>

definition demo_variables_ts :: "string list" where
  "demo_variables_ts = [''OBS_TIMESTAMP'', ''TMBR_00001'', ''TMBR_00002'',
                        ''TMBR_00003'', ''TMBR_00004'', ''TMBR_00005'']"

definition demo_adapter_ts :: "(unit, string list, string, int) SensorDataset" where
  "demo_adapter_ts =
     \<lparr> dataset_name = ''amsu'', time = ''2021-01-01'',
       primary_descriptors = [''OBS_TIMESTAMP''],
       additional_variables = [], sensor_type = ''MHS'', catalog = (),
       dataset = demo_variables_ts, dataframe = demo_frame demo_variables_ts,
       metadata_columns = [''TMBR_00001'', ''TMBR_00002'', ''TMBR_00003'',
                           ''TMBR_00004'', ''TMBR_00005''] \<rparr>"

text \<open>
  The adapter that construction yields when the channel \<open>TMBR_00001\<close> is listed among
  the primary descriptors: the variable is selected twice and is one column of the
  frame.
\<close>

definition demo_adapter_chan :: "(unit, string list, string, int) SensorDataset" where
  "demo_adapter_chan =
     \<lparr> dataset_name = ''amsu'', time = ''2021-01-01'',
       primary_descriptors = [''OBS_TIMESTAMP'', ''LAT'', ''LON'', ''TMBR_00001''],
       additional_variables = [], sensor_type = ''MHS'', catalog = (),
       dataset = [''OBS_TIMESTAMP'', ''LAT'', ''LON'', ''TMBR_00001'', ''TMBR_00001'',
                  ''TMBR_00002'', ''TMBR_00003'', ''TMBR_00004'', ''TMBR_00005''],
       dataframe = demo_frame demo_variables,
       metadata_columns = [''TMBR_00002'', ''TMBR_00003'', ''TMBR_00004'', ''TMBR_00005''] \<rparr>"

text \<open>
  A catalog like the one above, except that it adds the variables \<open>LAT\<close> and \<open>LON\<close> to
  every selection, asked for or not; and the adapter that construction yields on it
  when \<open>OBS_TIMESTAMP\<close> is the only primary descriptor.
\<close>

definition extra_lib :: "(unit, string list, string, int) nnja" where
  "extra_lib =
     demo_lib\<lparr> sel := (\<lambda>ds tm variables.
        Inr (filter demo_available (variables @ [''LAT'', ''LON'']))) \<rparr>"

definition extra_variables :: "string list" where
  "extra_variables = [''OBS_TIMESTAMP'', ''TMBR_00001'', ''TMBR_00002'', ''TMBR_00003'',
                      ''TMBR_00004'', ''TMBR_00005'', ''LAT'', ''LON'']"

definition extra_adapter :: "(unit, string list, string, int) SensorDataset" where
  "extra_adapter =
     \<lparr> dataset_name = ''amsu'', time = ''2021-01-01'',
       primary_descriptors = [''OBS_TIMESTAMP''],
       additional_variables = [], sensor_type = ''MHS'', catalog = (),
       dataset = extra_variables, dataframe = demo_frame extra_variables,
       metadata_columns = [''TMBR_00001'', ''TMBR_00002'', ''TMBR_00003'', ''TMBR_00004'',
                           ''TMBR_00005'', ''LAT'', ''LON''] \<rparr>"

text \<open>Adapters whose frame lacks the column \<open>OBS_TIMESTAMP\<close>, and the column \<open>LON\<close>.\<close>

definition demo_adapter_no_obs :: "(unit, string list, string, int) SensorDataset" where
  "demo_adapter_no_obs =
     demo_adapter\<lparr> dataframe := demo_frame [''LAT'', ''LON'', ''TMBR_00001''],
                    metadata_columns := [''TMBR_00001''] \<rparr>"

definition demo_adapter_no_lon :: "(unit, string list, string, int) SensorDataset" where
  "demo_adapter_no_lon =
     demo_adapter\<lparr> dataframe := demo_frame [''OBS_TIMESTAMP'', ''LAT'', ''TMBR_00001''],
                    metadata_columns := [''TMBR_00001''] \<rparr>"

section \<open>Facts about the channel names\<close>

lemma of_char_digit: "d < 10 \<Longrightarrow> of_char (digit d) = (48 + d :: nat)"
proof -
  assume "d < 10"
  then have "d \<in> set [0..<10]" by simp
  moreover have "[0..<10] = [0, 1, 2, 3, 4, 5, 6, 7, 8, 9 :: nat]" by code_simp
  ultimately have "d \<in> set [0, 1, 2, 3, 4, 5, 6, 7, 8, 9 :: nat]" by simp
  then show ?thesis by (auto simp: digit_def)
qed

lemma dec_val_snoc: "dec_val (s @ [c]) = 10 * dec_val s + (of_char c - 48)"
  by (simp add: dec_val_def)

lemma dec_val_str_nat: "dec_val (str_nat n) = n"
proof (induction n rule: str_nat.induct)
  case (1 n)
  show ?case
  proof (cases "n < 10")
    case True
    then show ?thesis by (simp add: str_nat.simps [of n] dec_val_def of_char_digit)
  next
    case False
    then show ?thesis using 1
      by (simp add: str_nat.simps [of n] dec_val_snoc of_char_digit)
  qed
qed

lemma dec_val_zeros: "dec_val (replicate k (CHR ''0'') @ s) = dec_val s"
  by (induction k) (simp_all add: dec_val_def)

lemma dec_val_zfill: "dec_val (zfill w (str_nat n)) = n"
  by (simp add: zfill_def dec_val_zeros dec_val_str_nat)

lemma zfill_str_nat_inj: "zfill w (str_nat i) = zfill w (str_nat j) \<Longrightarrow> i = j"
  by (metis dec_val_zfill)

lemma distinct_names:
  "distinct xs \<Longrightarrow> distinct (map (\<lambda>i. zfill w (str_nat i)) xs)"
  by (auto simp: distinct_map inj_on_def dest: zfill_str_nat_inj)

lemma distinct_map_Cons: "distinct (map (\<lambda>i. c # f i) xs) \<longleftrightarrow> distinct (map f xs)"
  by (auto simp: distinct_map inj_on_def)

lemma channel_variables_distinct:
  "channel_variables sensor = Some chans \<Longrightarrow> distinct chans"
  by (auto simp: channel_variables_def format_02d_def distinct_names distinct_map_Cons
      split: if_splits)

lemma channel_variables_length:
  "channel_variables sensor = Some chans \<Longrightarrow>
   length chans = (if sensor = ''AMSU'' then 15 else if sensor = ''ATMS'' then 22
     else if sensor = ''MHS'' then 5 else if sensor = ''IASI'' then 616 else 431)"
  by (auto simp: channel_variables_def split: if_splits)

lemma channel_variables_hd:
  "channel_variables sensor = Some chans \<Longrightarrow> c \<in> set chans \<Longrightarrow>
   hd c = CHR ''T'' \<or> hd c = CHR ''S''"
  by (auto simp: channel_variables_def split: if_splits)

lemma channel_variables_not_primary:
  "channel_variables sensor = Some chans \<Longrightarrow>
   ''OBS_TIMESTAMP'' \<notin> set chans \<and> ''LAT'' \<notin> set chans \<and> ''LON'' \<notin> set chans"
  using channel_variables_hd [of sensor chans] by fastforce

lemma channel_variables_Some_iff:
  "(\<exists>chans. channel_variables sensor = Some chans) \<longleftrightarrow>
   sensor \<in> {''AMSU'', ''ATMS'', ''MHS'', ''IASI'', ''CrIS''}"
  by (auto simp: channel_variables_def)

section \<open>Facts about construction\<close>

lemma check_columns_find:
  "check_columns pd df =
     (case find (\<lambda>c. c \<notin> set (columns df)) pd of
        None \<Rightarrow> Inr () | Some c \<Rightarrow> Inl (missing_column c))"
  by (induction pd) auto

lemma init_InrE:
  assumes "SensorDataset_init binding name tm pd av sensor w = (Inr self, w')"
  obtains lib cat ds0 ds1 chans ds2 df where
    "binding = Some lib"
    "DataCatalog lib True = Inr cat"
    "catalog_getitem lib cat name = Inr ds0"
    "load_manifest lib ds0 = Inr ds1"
    "channel_variables sensor = Some chans"
    "sel lib ds1 tm (pd @ chans) = Inr ds2"
    "load_dataset lib ds2 ''pandas'' = Inr df"
    "check_columns pd df = Inr ()"
    "self = \<lparr> dataset_name = name, time = tm, primary_descriptors = pd,
               additional_variables = av, sensor_type = sensor,
               catalog = cat, dataset = ds2, dataframe = df,
               metadata_columns = filter (\<lambda>col. col \<notin> set pd) (columns df) \<rparr>"
    "w' = w @ [Call_DataCatalog, Call_catalog_getitem name, Call_load_manifest,
               Call_sel tm (pd @ chans), Call_load_dataset]"
  using assms unfolding SensorDataset_init_def ext_def
  by (auto split: option.splits sum.splits)

lemma demo_init_mhs:
  "SensorDataset_init (Some demo_lib) ''amsu'' ''2021-01-01''
     [''OBS_TIMESTAMP'', ''LAT'', ''LON''] [] ''MHS'' [] =
   (Inr demo_adapter,
    [Call_DataCatalog, Call_catalog_getitem ''amsu'', Call_load_manifest,
     Call_sel ''2021-01-01'' demo_variables, Call_load_dataset])"
  by code_simp

section \<open>Facts about indexed access\<close>

lemma series_getitems_Inl: "series_getitems row cols = Inl e \<Longrightarrow> \<exists>c. e = KeyError c"
  by (induction cols arbitrary: e) (auto simp: series_getitem_def split: sum.splits option.splits)

lemma series_getitems_InrD:
  "series_getitems row cols = Inr vs \<Longrightarrow> map (map_of row) cols = map Some vs"
  by (induction cols arbitrary: vs)
     (auto simp: series_getitem_def split: sum.splits option.splits)

lemma series_getitems_InrI:
  "map (map_of row) cols = map Some vs \<Longrightarrow> series_getitems row cols = Inr vs"
  by (induction cols arbitrary: vs)
     (auto simp: series_getitem_def map_eq_Cons_conv Cons_eq_map_conv)

lemma np_array_float32_Inl:
  "np_array_float32 f32 cs = Inl e \<Longrightarrow>
   e = TypeError \<or>
   (\<exists>s. e = ValueError (''could not convert string to float: '' @ [CHR 0x27] @ s @ [CHR 0x27]))"
  by (induction cs arbitrary: e) (auto split: sum.splits cell.splits)

lemma np_array_float32_Number: "np_array_float32 f32 (map Number ws) = Inr (map f32 ws)"
  by (induction ws) auto

lemma np_array_float32_InrD:
  "np_array_float32 f32 cs = Inr vs \<Longrightarrow> \<exists>ws. cs = map Number ws \<and> vs = map f32 ws"
proof (induction cs arbitrary: vs)
  case Nil
  then show ?case by simp
next
  case (Cons c cs)
  from Cons.prems obtain v us where c: "c = Number v"
    and us: "np_array_float32 f32 cs = Inr us" and vs: "vs = f32 v # us"
    by (auto split: cell.splits sum.splits)
  from Cons.IH [OF us] obtain ws where "cs = map Number ws" "us = map f32 ws"
    by blast
  with c vs have "c # cs = map Number (v # ws) \<and> vs = map f32 (v # ws)"
    by simp
  then show ?case by (rule exI [where x = "v # ws"])
qed

lemma shape_torch_from_numpy: "shape (torch_from_numpy vs) = [length vs]"
  by (cases vs) (simp_all add: torch_from_numpy_def)

lemma getitem_sample_Inl:
  "getitem_sample f32 self index = Inl e \<Longrightarrow>
   e = IndexError \<or> (\<exists>c. e = KeyError c) \<or> e = AttributeError \<or> e = TypeError \<or>
   e = ValueError ''NaTType does not support timestamp'' \<or>
   (\<exists>s. e = ValueError (''could not convert string to float: '' @ [CHR 0x27] @ s @ [CHR 0x27]))"
  unfolding getitem_sample_def
  by (auto simp: df_iloc_def Let_def series_getitem_def timestamp_method_def torch_tensor_float32_def
      dest: series_getitems_Inl np_array_float32_Inl
      split: sum.splits option.splits cell.splits if_splits)

lemma getitem_sample_InrE:
  assumes "getitem_sample f32 self index = Inr s"
  obtains row t la lo ws where
    "df_iloc (dataframe self) index = Inr row"
    "series_getitem row ''OBS_TIMESTAMP'' = Inr (Timestamp t)"
    "series_getitem row ''LAT'' = Inr (Number la)"
    "series_getitem row ''LON'' = Inr (Number lo)"
    "series_getitems row (metadata_columns self) = Inr (map Number ws)"
    "s = [(''timestamp'', Scalar (f32 t)), (''latitude'', Scalar (f32 la)),
          (''longitude'', Scalar (f32 lo)), (''metadata'', torch_from_numpy (map f32 ws))]"
  using assms unfolding getitem_sample_def
  by (auto simp: timestamp_method_def torch_tensor_float32_def
      dest!: np_array_float32_InrD split: sum.splits cell.splits)

lemma getitem_sample_InrI:
  assumes "df_iloc (dataframe self) index = Inr row"
    "series_getitem row ''OBS_TIMESTAMP'' = Inr (Timestamp t)"
    "series_getitem row ''LAT'' = Inr (Number la)"
    "series_getitem row ''LON'' = Inr (Number lo)"
    "series_getitems row (metadata_columns self) = Inr (map Number ws)"
  shows "getitem_sample f32 self index =
     Inr [(''timestamp'', Scalar (f32 t)), (''latitude'', Scalar (f32 la)),
          (''longitude'', Scalar (f32 lo)), (''metadata'', torch_from_numpy (map f32 ws))]"
proof -
  have "np_array_float32 f32 (map Number ws) = Inr (map f32 ws)"
    by (rule np_array_float32_Number)
  with assms show ?thesis
    by (simp add: getitem_sample_def timestamp_method_def torch_tensor_float32_def)
qed

lemma series_getitem_absent:
  "c \<notin> set cols \<Longrightarrow> series_getitem (zip cols cells) c = Inl (KeyError c)"
proof -
  assume "c \<notin> set cols"
  then have "c \<notin> fst ` set (zip cols cells)"
    by (auto dest: set_zip_leftD)
  then have "map_of (zip cols cells) c = None"
    by (simp add: map_of_eq_None_iff)
  then show ?thesis by (simp add: series_getitem_def)
qed

lemma df_iloc_InrE:
  assumes "df_iloc df index = Inr row"
  obtains k where "k < length (rows df)" "row = zip (columns df) (rows df ! k)"
    "k = nat (if index < 0 then int (length (rows df)) + index else index)"
  using assms unfolding df_iloc_def Let_def
  by (auto split: if_splits)

lemma getitem_sample_needs_columns:
  assumes "getitem_sample f32 self index = Inr s"
  shows "''OBS_TIMESTAMP'' \<in> set (columns (dataframe self)) \<and>
         ''LAT'' \<in> set (columns (dataframe self)) \<and>
         ''LON'' \<in> set (columns (dataframe self))"
proof -
  from assms obtain row t la lo where
    row: "df_iloc (dataframe self) index = Inr row"
    and l: "series_getitem row ''OBS_TIMESTAMP'' = Inr (Timestamp t)"
    "series_getitem row ''LAT'' = Inr (Number la)"
    "series_getitem row ''LON'' = Inr (Number lo)"
    by (elim getitem_sample_InrE)
  from row obtain k where "row = zip (columns (dataframe self)) (rows (dataframe self) ! k)"
    by (elim df_iloc_InrE)
  with l show ?thesis
    using series_getitem_absent [of _ "columns (dataframe self)" "rows (dataframe self) ! k"]
    by (metis Inl_Inr_False)
qed

lemma demo_getitem_1:
  "getitem_sample (\<lambda>v. v) demo_adapter 1 =
     Inr [(''timestamp'', Scalar 1700000001), (''latitude'', Scalar 1),
          (''longitude'', Scalar 1),
          (''metadata'', Array [Scalar 1, Scalar 1, Scalar 1, Scalar 1, Scalar 1])]"
  by code_simp

lemma getitem_sample_no_missing_column:
  "getitem_sample f32 self index \<noteq> Inl (missing_column c)"
  using getitem_sample_Inl [of f32 self index "missing_column c"]
  by (auto simp: missing_column_def)

lemma init_load_dataset:
  assumes "DataCatalog lib True = Inr cat"
    and "catalog_getitem lib cat name = Inr ds0"
    and "load_manifest lib ds0 = Inr ds1"
    and "channel_variables sensor = Some chans"
    and "sel lib ds1 tm (pd @ chans) = Inr ds2"
    and "load_dataset lib ds2 ''pandas'' = Inr df"
  shows "SensorDataset_init (Some lib) name tm pd av sensor w =
     (case check_columns pd df of
        Inl e \<Rightarrow> Inl e
      | Inr u \<Rightarrow> Inr \<lparr> dataset_name = name, time = tm, primary_descriptors = pd,
               additional_variables = av, sensor_type = sensor,
               catalog = cat, dataset = ds2, dataframe = df,
               metadata_columns = filter (\<lambda>col. col \<notin> set pd) (columns df) \<rparr>,
      w @ [Call_DataCatalog, Call_catalog_getitem name, Call_load_manifest,
           Call_sel tm (pd @ chans), Call_load_dataset])"
  using assms by (simp add: SensorDataset_init_def ext_def split: sum.splits)

lemma channel_variables_MHS:
  "channel_variables ''MHS'' =
     Some [''TMBR_00001'', ''TMBR_00002'', ''TMBR_00003'', ''TMBR_00004'', ''TMBR_00005'']"
  by code_simp

lemma demo_lib_calls:
  "DataCatalog demo_lib True = Inr ()"
  "catalog_getitem demo_lib () ''amsu'' = Inr []"
  "load_manifest demo_lib [] = Inr []"
  "sel demo_lib ds tm variables = Inr (filter demo_available variables)"
  "load_dataset demo_lib ds engine = Inr (demo_frame ds)"
  by (simp_all add: demo_lib_def)

lemma demo_init_ts:
  "SensorDataset_init (Some demo_lib) ''amsu'' ''2021-01-01'' [''OBS_TIMESTAMP''] [] ''MHS'' [] =
   (Inr demo_adapter_ts,
    [Call_DataCatalog, Call_catalog_getitem ''amsu'', Call_load_manifest,
     Call_sel ''2021-01-01'' demo_variables_ts, Call_load_dataset])"
  by code_simp


lemma demo_init_chan:
  "SensorDataset_init (Some demo_lib) ''amsu'' ''2021-01-01''
     [''OBS_TIMESTAMP'', ''LAT'', ''LON'', ''TMBR_00001''] [] ''MHS'' [] =
   (Inr demo_adapter_chan,
    [Call_DataCatalog, Call_catalog_getitem ''amsu'', Call_load_manifest,
     Call_sel ''2021-01-01'' [''OBS_TIMESTAMP'', ''LAT'', ''LON'', ''TMBR_00001'', ''TMBR_00001'',
                  ''TMBR_00002'', ''TMBR_00003'', ''TMBR_00004'', ''TMBR_00005''],
     Call_load_dataset])"
  by code_simp

lemma demo_getitem_chan:
  "getitem_sample (\<lambda>v. v) demo_adapter_chan 0 =
     Inr [(''timestamp'', Scalar 1700000000), (''latitude'', Scalar 0),
          (''longitude'', Scalar 0),
          (''metadata'', Array [Scalar 0, Scalar 0, Scalar 0, Scalar 0])]"
  by code_simp

lemma demo_frame_columns:
  "columns (demo_frame demo_variables) = demo_variables"
  "columns (demo_frame demo_variables_ts) = demo_variables_ts"
  by (simp_all add: demo_frame_def demo_variables_def demo_variables_ts_def)

lemma length_filter_exact:
  assumes "set cols = set (pd @ chans)" "distinct cols" "distinct chans"
    "set pd \<inter> set chans = {}"
  shows "length (filter (\<lambda>c. c \<notin> set pd) cols) = length chans"
proof -
  from assms(1,4) have "set (filter (\<lambda>c. c \<notin> set pd) cols) = set chans"
    by auto
  moreover from assms(2) have "distinct (filter (\<lambda>c. c \<notin> set pd) cols)"
    by simp
  ultimately show ?thesis
    using assms(3) by (metis distinct_card)
qed

lemma access_fails_without_fixed_columns:
  assumes "DataCatalog lib True = Inr cat"
    and "catalog_getitem lib cat name = Inr ds0"
    and "load_manifest lib ds0 = Inr ds1"
    and "channel_variables sensor = Some chans"
    and "sel lib ds1 tm (pd @ chans) = Inr ds2"
    and "load_dataset lib ds2 ''pandas'' = Inr df"
    and exact: "set (columns df) = set (pd @ chans)"
    and lacking: "\<not> {''OBS_TIMESTAMP'', ''LAT'', ''LON''} \<subseteq> set pd"
  shows "\<exists>self. SensorDataset_init (Some lib) name tm pd av sensor w0 =
              (Inr self, w0 @ [Call_DataCatalog, Call_catalog_getitem name, Call_load_manifest,
                               Call_sel tm (pd @ chans), Call_load_dataset]) \<and>
            primary_descriptors self = pd \<and> dataframe self = df \<and>
            (\<forall>i w2. \<exists>e. fst (fst (SensorDataset_getitem f32 self i w2)) = Inl e)"
proof -
  define self where "self = \<lparr> dataset_name = name, time = tm, primary_descriptors = pd,
               additional_variables = av, sensor_type = sensor,
               catalog = cat, dataset = ds2, dataframe = df,
               metadata_columns = filter (\<lambda>col. col \<notin> set pd) (columns df) \<rparr>"
  from exact have "check_columns pd df = Inr ()"
    by (simp add: check_columns_find find_None_iff split: option.splits)
  with assms(1-6) have init: "SensorDataset_init (Some lib) name tm pd av sensor w0 =
      (Inr self, w0 @ [Call_DataCatalog, Call_catalog_getitem name, Call_load_manifest,
                       Call_sel tm (pd @ chans), Call_load_dataset])"
    by (simp add: init_load_dataset self_def)
  from lacking exact channel_variables_not_primary [OF assms(4)]
  have absent: "\<not> {''OBS_TIMESTAMP'', ''LAT'', ''LON''} \<subseteq> set (columns (dataframe self))"
    by (auto simp: self_def)
  have "\<exists>e. fst (fst (SensorDataset_getitem f32 self i w2)) = Inl e" for i w2
  proof (cases "getitem_sample f32 self i")
    case (Inl e)
    then show ?thesis by (simp add: SensorDataset_getitem_def)
  next
    case (Inr s)
    from getitem_sample_needs_columns [OF this] absent show ?thesis by simp
  qed
  with init show ?thesis
    by (intro exI [where x = self]) (simp add: self_def)
qed

text \<open>
  All samples of one adapter have the same fields and, field by field, the same shape:
  three scalars and a vector with one entry per metadata column.
\<close>

lemma getitem_sample_shapes:
  assumes "getitem_sample f32 self index = Inr s"
  shows "map fst s = [''timestamp'', ''latitude'', ''longitude'', ''metadata''] \<and>
         map (\<lambda>kv. shape (snd kv)) s = [[], [], [], [length (metadata_columns self)]]"
proof -
  from assms obtain row t la lo ws where
    ws: "series_getitems row (metadata_columns self) = Inr (map Number ws)"
    and s: "s = [(''timestamp'', Scalar (f32 t)), (''latitude'', Scalar (f32 la)),
          (''longitude'', Scalar (f32 lo)), (''metadata'', torch_from_numpy (map f32 ws))]"
    by (elim getitem_sample_InrE)
  from series_getitems_InrD [OF ws] have "length ws = length (metadata_columns self)"
    by (metis length_map)
  with s show ?thesis
    by (simp add: shape_torch_from_numpy)
qed

lemma getitem_sample_primary_descriptors:
  "getitem_sample f32 (a\<lparr>primary_descriptors := pd'\<rparr>) index = getitem_sample f32 a index"
  by (simp add: getitem_sample_def cong: sum.case_cong)

lemma init_descriptors_present:
  assumes "SensorDataset_init binding name tm pd av sensor w = (Inr self, w1)"
  shows "primary_descriptors self = pd \<and> set pd \<subseteq> set (columns (dataframe self))"
proof -
  from assms obtain df where "check_columns pd df = Inr ()"
    "primary_descriptors self = pd" "dataframe self = df"
    by (elim init_InrE) simp
  then show ?thesis
    by (auto simp: check_columns_find find_None_iff split: option.splits)
qed

lemma demo_getitem_f32:
  "getitem_sample float32_of_int demo_adapter 1 =
     Inr [(''timestamp'', Scalar 1700000000), (''latitude'', Scalar 1),
          (''longitude'', Scalar 1),
          (''metadata'', Array [Scalar 1, Scalar 1, Scalar 1, Scalar 1, Scalar 1])]"
  by code_simp

lemma getitem_sample_of_row:
  assumes "metadata_columns self = filter (\<lambda>c. c \<notin> set pd) (columns (dataframe self))"
    and "- int (length (rows (dataframe self))) \<le> index"
    and "index < int (length (rows (dataframe self)))"
    and "row = zip (columns (dataframe self))
                 (rows (dataframe self) !
                    nat (if index < 0 then int (length (rows (dataframe self))) + index else index))"
    and "map_of row ''OBS_TIMESTAMP'' = Some (Timestamp t)"
    and "map_of row ''LAT'' = Some (Number la)"
    and "map_of row ''LON'' = Some (Number lo)"
    and "map (map_of row) (filter (\<lambda>c. c \<notin> set pd) (columns (dataframe self))) =
           map (\<lambda>v. Some (Number v)) vs"
  shows "getitem_sample f32 self index =
           Inr [(''timestamp'', Scalar (f32 t)),
                (''latitude'', Scalar (f32 la)),
                (''longitude'', Scalar (f32 lo)),
                (''metadata'', Array (map (\<lambda>v. Scalar (f32 v)) vs))]"
proof -
  from assms(2,3,4) have row: "df_iloc (dataframe self) index = Inr row"
    by (auto simp: df_iloc_def Let_def)
  from assms(8) have "map (map_of row) (metadata_columns self) = map Some (map Number vs)"
    by (simp add: assms(1) comp_def)
  then have "series_getitems row (metadata_columns self) = Inr (map Number vs)"
    by (rule series_getitems_InrI)
  with row assms(5,6,7) have "getitem_sample f32 self index =
     Inr [(''timestamp'', Scalar (f32 t)), (''latitude'', Scalar (f32 la)),
          (''longitude'', Scalar (f32 lo)), (''metadata'', torch_from_numpy (map f32 vs))]"
    by (intro getitem_sample_InrI) (simp_all add: series_getitem_def)
  then show ?thesis
    by (simp add: torch_from_numpy_def comp_def)
qed

lemma getitem_sample_out_of_range:
  assumes "index < - int (length (rows (dataframe self))) \<or>
           int (length (rows (dataframe self))) \<le> index"
  shows "getitem_sample f32 self index = Inl IndexError"
  using assms by (auto simp: getitem_sample_def df_iloc_def Let_def)

lemma series_getitem_Inr: "series_getitem row c = Inr v \<longleftrightarrow> map_of row c = Some v"
  by (simp add: series_getitem_def split: option.splits)

lemma getitem_sample_KeyError_OBS:
  assumes "df_iloc (dataframe a) index = Inr row"
    and "''OBS_TIMESTAMP'' \<notin> set (columns (dataframe a))"
  shows "getitem_sample f32 a index = Inl (KeyError ''OBS_TIMESTAMP'')"
proof -
  from assms(1) obtain k where "row = zip (columns (dataframe a)) (rows (dataframe a) ! k)"
    by (elim df_iloc_InrE)
  with assms(2) have "series_getitem row ''OBS_TIMESTAMP'' = Inl (KeyError ''OBS_TIMESTAMP'')"
    by (simp add: series_getitem_absent)
  with assms(1) show ?thesis
    by (simp add: getitem_sample_def)
qed

lemma getitem_sample_KeyError_LAT:
  assumes "df_iloc (dataframe a) index = Inr row"
    and "map_of row ''OBS_TIMESTAMP'' = Some (Timestamp t)"
    and "''LAT'' \<notin> set (columns (dataframe a))"
  shows "getitem_sample f32 a index = Inl (KeyError ''LAT'')"
proof -
  from assms(1) obtain k where "row = zip (columns (dataframe a)) (rows (dataframe a) ! k)"
    by (elim df_iloc_InrE)
  with assms(3) have "series_getitem row ''LAT'' = Inl (KeyError ''LAT'')"
    by (simp add: series_getitem_absent)
  with assms(1,2) show ?thesis
    by (simp add: getitem_sample_def series_getitem_def timestamp_method_def)
qed

lemma getitem_sample_KeyError_LON:
  assumes "df_iloc (dataframe a) index = Inr row"
    and "map_of row ''OBS_TIMESTAMP'' = Some (Timestamp t)"
    and "map_of row ''LAT'' = Some c"
    and "''LON'' \<notin> set (columns (dataframe a))"
  shows "getitem_sample f32 a index = Inl (KeyError ''LON'')"
proof -
  from assms(1) obtain k where "row = zip (columns (dataframe a)) (rows (dataframe a) ! k)"
    by (elim df_iloc_InrE)
  with assms(4) have "series_getitem row ''LON'' = Inl (KeyError ''LON'')"
    by (simp add: series_getitem_absent)
  with assms(1,2,3) show ?thesis
    by (simp add: getitem_sample_def series_getitem_def timestamp_method_def)
qed

lemma getitem_sample_reads:
  assumes "getitem_sample f32 a index = Inr s"
  shows "\<exists>row t la lo.
           df_iloc (dataframe a) index = Inr row \<and>
           map_of row ''OBS_TIMESTAMP'' = Some (Timestamp t) \<and>
           map_of row ''LAT'' = Some (Number la) \<and>
           map_of row ''LON'' = Some (Number lo) \<and>
           map_of s ''timestamp'' = Some (Scalar (f32 t)) \<and>
           map_of s ''latitude'' = Some (Scalar (f32 la)) \<and>
           map_of s ''longitude'' = Some (Scalar (f32 lo))"
proof -
  from assms obtain row t la lo ws where
    "df_iloc (dataframe a) index = Inr row"
    "series_getitem row ''OBS_TIMESTAMP'' = Inr (Timestamp t)"
    "series_getitem row ''LAT'' = Inr (Number la)"
    "series_getitem row ''LON'' = Inr (Number lo)"
    "s = [(''timestamp'', Scalar (f32 t)), (''latitude'', Scalar (f32 la)),
          (''longitude'', Scalar (f32 lo)), (''metadata'', torch_from_numpy (map f32 ws))]"
    by (elim getitem_sample_InrE)
  then have "df_iloc (dataframe a) index = Inr row \<and>
           map_of row ''OBS_TIMESTAMP'' = Some (Timestamp t) \<and>
           map_of row ''LAT'' = Some (Number la) \<and>
           map_of row ''LON'' = Some (Number lo) \<and>
           map_of s ''timestamp'' = Some (Scalar (f32 t)) \<and>
           map_of s ''latitude'' = Some (Scalar (f32 la)) \<and>
           map_of s ''longitude'' = Some (Scalar (f32 lo))"
    by (simp add: series_getitem_Inr)
  then show ?thesis by blast
qed

lemma demo_init_extra:
  "SensorDataset_init (Some extra_lib) ''amsu'' ''2021-01-01'' [''OBS_TIMESTAMP''] [] ''MHS'' [] =
   (Inr extra_adapter,
    [Call_DataCatalog, Call_catalog_getitem ''amsu'', Call_load_manifest,
     Call_sel ''2021-01-01'' demo_variables_ts, Call_load_dataset])"
  by code_simp

lemma demo_getitem_extra:
  "getitem_sample float32_of_int extra_adapter 1 =
     Inr [(''timestamp'', Scalar 1700000000), (''latitude'', Scalar 1),
          (''longitude'', Scalar 1),
          (''metadata'', Array [Scalar 1, Scalar 1, Scalar 1, Scalar 1, Scalar 1,
                                Scalar 1, Scalar 1])]"
  by code_simp

lemma demo_getitem_missing:
  "getitem_sample float32_of_int demo_adapter_no_obs 0 = Inl (KeyError ''OBS_TIMESTAMP'')"
  "getitem_sample float32_of_int demo_adapter_ts 0 = Inl (KeyError ''LAT'')"
  "getitem_sample float32_of_int demo_adapter_no_lon 0 = Inl (KeyError ''LON'')"
  "getitem_sample float32_of_int demo_adapter_ts 2 = Inl IndexError"
  by code_simp+

section \<open>Facts about the batch stacker\<close>

lemma dict_getitems_InrD:
  "dict_getitems batch key = Inr ts \<Longrightarrow> map (\<lambda>item. map_of item key) batch = map Some ts"
  by (induction batch arbitrary: ts)
     (auto simp: dict_getitem_def split: sum.splits option.splits)

lemma dict_getitems_InrI:
  "map (\<lambda>item. map_of item key) batch = map Some ts \<Longrightarrow> dict_getitems batch key = Inr ts"
  by (induction batch arbitrary: ts)
     (auto simp: dict_getitem_def map_eq_Cons_conv Cons_eq_map_conv)

lemma torch_stack_InrD:
  "torch_stack ts = Inr t \<Longrightarrow> t = Array ts \<and> ts \<noteq> [] \<and> shape t = length ts # shape (hd ts)"
  by (cases ts) (auto simp: torch_stack_def split: if_splits)

lemma torch_stack_InrI:
  "ts \<noteq> [] \<Longrightarrow> \<forall>u \<in> set ts. shape u = shape (hd ts) \<Longrightarrow> torch_stack ts = Inr (Array ts)"
  by (cases ts) (auto simp: torch_stack_def list_all_iff)

lemma collate_keys_fields: "collate_keys keys batch = Inr r \<Longrightarrow> map fst r = keys"
  by (induction keys arbitrary: r) (auto split: sum.splits)

lemma collate_keys_lookup:
  "collate_keys keys batch = Inr r \<Longrightarrow> key \<in> set keys \<Longrightarrow>
   \<exists>ts t. dict_getitems batch key = Inr ts \<and> torch_stack ts = Inr t \<and> map_of r key = Some t"
  by (induction keys arbitrary: r) (auto split: sum.splits)

lemma collate_keys_InrI:
  "\<forall>key \<in> set keys. \<exists>ts t. dict_getitems batch key = Inr ts \<and> torch_stack ts = Inr t \<Longrightarrow>
   \<exists>r. collate_keys keys batch = Inr r"
  by (induction keys) (auto split: sum.splits)

section \<open>The claims\<close>

text \<open>
  C1 (as amended). Take an adapter that construction returned for a supported sensor
  type, on a frame whose columns are exactly the selected variables, each once, and
  let no primary descriptor be one of the sensor's channel names. Then every sample
  that indexed access returns has, under \<open>metadata\<close>, a vector of 15, 22, 5, 616 or 431
  numbers for \<open>AMSU\<close>, \<open>ATMS\<close>, \<open>MHS\<close>, \<open>IASI\<close> or \<open>CrIS\<close>.
\<close>

theorem metadata_length_by_sensor:
  assumes "SensorDataset_init binding name tm pd av sensor w = (Inr self, w1)"
    and "set (columns (dataframe self)) = set (pd @ chans)"
    and "distinct (columns (dataframe self))"
    and "channel_variables sensor = Some chans"
    and "set pd \<inter> set chans = {}"
    and "fst (fst (SensorDataset_getitem f32 self index w2)) = Inr s"
  shows "\<exists>vs. map_of s ''metadata'' = Some (Array (map Scalar vs)) \<and>
           length vs = (if sensor = ''AMSU'' then 15 else if sensor = ''ATMS'' then 22
             else if sensor = ''MHS'' then 5 else if sensor = ''IASI'' then 616 else 431) \<and>
           shape (Array (map Scalar vs)) = [length vs]"
proof -
  from assms(1) have mc: "metadata_columns self =
      filter (\<lambda>c. c \<notin> set pd) (columns (dataframe self))"
    by (elim init_InrE) simp
  from assms(6) have "getitem_sample f32 self index = Inr s"
    by (simp add: SensorDataset_getitem_def)
  then obtain row ws where
    ws: "series_getitems row (metadata_columns self) = Inr (map Number ws)"
    and s: "map_of s ''metadata'' = Some (torch_from_numpy (map f32 ws))"
    by (elim getitem_sample_InrE) simp
  from series_getitems_InrD [OF ws] have "length (metadata_columns self) = length ws"
    by (metis length_map)
  also have "length (metadata_columns self) = length chans"
    unfolding mc using assms(2,3) channel_variables_distinct [OF assms(4)] assms(5)
    by (rule length_filter_exact)
  finally have "length (map f32 ws) = length chans" by simp
  with s channel_variables_length [OF assms(4)] shape_torch_from_numpy [of "map f32 ws"]
  show ?thesis
    by (intro exI [where x = "map f32 ws"]) (simp add: torch_from_numpy_def)
qed


theorem metadata_length_by_sensor_witness:
  "SensorDataset_init (Some demo_lib) ''amsu'' ''2021-01-01''
     [''OBS_TIMESTAMP'', ''LAT'', ''LON''] [] ''MHS'' [] =
   (Inr demo_adapter,
    [Call_DataCatalog, Call_catalog_getitem ''amsu'', Call_load_manifest,
     Call_sel ''2021-01-01'' demo_variables, Call_load_dataset]) \<and>
   columns (dataframe demo_adapter) =
     [''OBS_TIMESTAMP'', ''LAT'', ''LON''] @
     [''TMBR_00001'', ''TMBR_00002'', ''TMBR_00003'', ''TMBR_00004'', ''TMBR_00005''] \<and>
   fst (fst (SensorDataset_getitem (\<lambda>v. v) demo_adapter 1 [])) =
     Inr [(''timestamp'', Scalar 1700000001), (''latitude'', Scalar 1),
          (''longitude'', Scalar 1),
          (''metadata'', Array [Scalar 1, Scalar 1, Scalar 1, Scalar 1, Scalar 1])] \<and>
   (\<exists>vs :: int list.
      Array [Scalar 1, Scalar 1, Scalar 1, Scalar 1, Scalar 1] = Array (map Scalar vs) \<and>
      length vs = 5)"
proof -
  let ?pd = "[''OBS_TIMESTAMP'', ''LAT'', ''LON'']"
  let ?chans = "[''TMBR_00001'', ''TMBR_00002'', ''TMBR_00003'', ''TMBR_00004'', ''TMBR_00005'']"
  have cols: "columns (dataframe demo_adapter) = ?pd @ ?chans"
    by (simp add: demo_adapter_def demo_frame_columns) (simp add: demo_variables_def)
  then have exact: "set (columns (dataframe demo_adapter)) = set (?pd @ ?chans)"
    by simp
  have uniq: "distinct (columns (dataframe demo_adapter))"
    unfolding cols by simp
  have disjoint: "set ?pd \<inter> set ?chans = {}"
    by simp
  have sample: "fst (fst (SensorDataset_getitem (\<lambda>v. v) demo_adapter 1 [])) =
     Inr [(''timestamp'', Scalar 1700000001), (''latitude'', Scalar 1),
          (''longitude'', Scalar 1),
          (''metadata'', Array [Scalar 1, Scalar 1, Scalar 1, Scalar 1, Scalar 1])]"
    by (simp add: SensorDataset_getitem_def demo_getitem_1)
  have "\<exists>vs :: int list.
      Array [Scalar 1, Scalar 1, Scalar 1, Scalar 1, Scalar 1] = Array (map Scalar vs) \<and>
      length vs = 5"
    by (intro exI [where x = "[1, 1, 1, 1, 1]"]) simp
  with metadata_length_by_sensor
    [OF demo_init_mhs exact uniq channel_variables_MHS disjoint sample]
    demo_init_mhs cols sample
  show ?thesis by simp
qed

text \<open>
  The claim as stated fails when a channel is listed among the primary descriptors:
  with \<open>TMBR_00001\<close> among them, on a frame whose columns are exactly the selected
  variables, construction succeeds for \<open>MHS\<close> and the metadata vector has 4 entries, not 5.
\<close>

theorem metadata_length_channel_descriptor:
  "SensorDataset_init (Some demo_lib) ''amsu'' ''2021-01-01''
     [''OBS_TIMESTAMP'', ''LAT'', ''LON'', ''TMBR_00001''] [] ''MHS'' [] =
   (Inr demo_adapter_chan,
    [Call_DataCatalog, Call_catalog_getitem ''amsu'', Call_load_manifest,
     Call_sel ''2021-01-01''
       [''OBS_TIMESTAMP'', ''LAT'', ''LON'', ''TMBR_00001'', ''TMBR_00001'',
        ''TMBR_00002'', ''TMBR_00003'', ''TMBR_00004'', ''TMBR_00005''],
     Call_load_dataset]) \<and>
   set (columns (dataframe demo_adapter_chan)) =
     set ([''OBS_TIMESTAMP'', ''LAT'', ''LON'', ''TMBR_00001''] @
          [''TMBR_00001'', ''TMBR_00002'', ''TMBR_00003'', ''TMBR_00004'', ''TMBR_00005'']) \<and>
   distinct (columns (dataframe demo_adapter_chan)) \<and>
   fst (fst (SensorDataset_getitem (\<lambda>v. v) demo_adapter_chan 0 [])) =
     Inr [(''timestamp'', Scalar 1700000000), (''latitude'', Scalar 0),
          (''longitude'', Scalar 0),
          (''metadata'', Array [Scalar 0, Scalar 0, Scalar 0, Scalar 0])] \<and>
   shape (Array [Scalar 0, Scalar 0, Scalar 0, Scalar (0 :: int)]) = [4]"
proof -
  have "columns (dataframe demo_adapter_chan) = demo_variables"
    by (simp add: demo_adapter_chan_def demo_frame_columns)
  then have "set (columns (dataframe demo_adapter_chan)) =
     set ([''OBS_TIMESTAMP'', ''LAT'', ''LON'', ''TMBR_00001''] @
          [''TMBR_00001'', ''TMBR_00002'', ''TMBR_00003'', ''TMBR_00004'', ''TMBR_00005''])"
    and "distinct (columns (dataframe demo_adapter_chan))"
    by (auto simp: demo_variables_def)
  with demo_init_chan demo_getitem_chan show ?thesis
    by (simp add: SensorDataset_getitem_def)
qed




text \<open>
  C3 (as amended). For a non-empty list of \<open>N\<close> samples that all have the same field
  names and, under each field, tensors of one shape, the batch stacker returns one
  record with the fields of the first sample; each field holds a stacked tensor whose
  leading dimension is \<open>N\<close> and whose slices along that axis are the samples' values
  under the field, in the order of the list.
\<close>

theorem collate_fn_stacks_in_order:
  assumes "batch \<noteq> []"
    and "\<forall>item \<in> set batch. fst ` set item = fst ` set (hd batch)"
    and "\<forall>item \<in> set batch. \<forall>key \<in> fst ` set (hd batch).
           map_option shape (map_of item key) = map_option shape (map_of (hd batch) key)"
  shows "\<exists>r. collate_fn batch = Inr r \<and> map fst r = map fst (hd batch) \<and>
           (\<forall>key \<in> fst ` set (hd batch). \<exists>t v0.
              map_of r key = Some t \<and> map_of (hd batch) key = Some v0 \<and>
              shape t = length batch # shape v0 \<and>
              map Some (unbind t) = map (\<lambda>item. map_of item key) batch)"
proof -
  from assms(1) obtain item0 items where batch: "batch = item0 # items"
    by (cases batch) auto
  have stack: "\<exists>ts v0. dict_getitems batch key = Inr ts \<and> torch_stack ts = Inr (Array ts) \<and>
      map_of (hd batch) key = Some v0 \<and> shape (Array ts) = length batch # shape v0"
    if key: "key \<in> fst ` set (hd batch)" for key
  proof -
    have "\<forall>item \<in> set batch. \<exists>v. map_of item key = Some v"
    proof
      fix item assume "item \<in> set batch"
      with assms(2) key have "key \<in> fst ` set item" by blast
      then show "\<exists>v. map_of item key = Some v"
        by (cases "map_of item key") (auto simp: map_of_eq_None_iff)
    qed
    then have "\<exists>ts. map (\<lambda>item. map_of item key) batch = map Some ts"
      by (induction batch) (auto simp: Cons_eq_map_conv)
    then obtain ts where ts: "map (\<lambda>item. map_of item key) batch = map Some ts" ..
    then have get: "dict_getitems batch key = Inr ts" by (rule dict_getitems_InrI)
    from ts have len: "length ts = length batch" by (metis length_map)
    with assms(1) have ne: "ts \<noteq> []" by auto
    from ts batch ne have hd: "map_of (hd batch) key = Some (hd ts)"
      by (cases ts) auto
    have "shape u = shape (hd ts)" if "u \<in> set ts" for u
    proof -
      from that obtain i where i: "i < length ts" "u = ts ! i"
        by (auto simp: in_set_conv_nth)
      with ts len have "map_of (batch ! i) key = Some u"
        by (metis nth_map)
      moreover from i len have "batch ! i \<in> set batch" by simp
      ultimately show ?thesis using assms(3) key hd by fastforce
    qed
    then have "\<forall>u \<in> set ts. shape u = shape (hd ts)" ..
    with ne have st: "torch_stack ts = Inr (Array ts)" by (rule torch_stack_InrI)
    from torch_stack_InrD [OF st] len have "shape (Array ts) = length batch # shape (hd ts)"
      by simp
    with get st hd show ?thesis by (intro exI [where x = ts] exI [where x = "hd ts"]) simp
  qed
  have "\<forall>key \<in> set (map fst (hd batch)).
      \<exists>ts t. dict_getitems batch key = Inr ts \<and> torch_stack ts = Inr t"
  proof
    fix key assume "key \<in> set (map fst (hd batch))"
    then have "key \<in> fst ` set (hd batch)" by simp
    from stack [OF this] show "\<exists>ts t. dict_getitems batch key = Inr ts \<and> torch_stack ts = Inr t"
      by blast
  qed
  from collate_keys_InrI [OF this] obtain r where r: "collate_keys (map fst (hd batch)) batch = Inr r" ..
  with batch have fn: "collate_fn batch = Inr r" by (simp add: collate_fn_def)
  have "\<exists>t v0. map_of r key = Some t \<and> map_of (hd batch) key = Some v0 \<and>
              shape t = length batch # shape v0 \<and>
              map Some (unbind t) = map (\<lambda>item. map_of item key) batch"
    if key: "key \<in> fst ` set (hd batch)" for key
  proof -
    from stack [OF key] obtain ts v0 where
      ts: "dict_getitems batch key = Inr ts" "torch_stack ts = Inr (Array ts)"
        "map_of (hd batch) key = Some v0" "shape (Array ts) = length batch # shape v0"
      by blast
    from key have "key \<in> set (map fst (hd batch))" by simp
    from collate_keys_lookup [OF r this] ts(1,2) have "map_of r key = Some (Array ts)"
      by auto
    moreover from dict_getitems_InrD [OF ts(1)]
    have "map Some (unbind (Array ts)) = map (\<lambda>item. map_of item key) batch"
      by simp
    ultimately show ?thesis using ts(3,4)
      by (intro exI [where x = "Array ts"] exI [where x = v0]) simp
  qed
  then have "\<forall>key \<in> fst ` set (hd batch). \<exists>t v0.
              map_of r key = Some t \<and> map_of (hd batch) key = Some v0 \<and>
              shape t = length batch # shape v0 \<and>
              map Some (unbind t) = map (\<lambda>item. map_of item key) batch" ..
  with fn collate_keys_fields [OF r] show ?thesis
    by (intro exI [where x = r] conjI)
qed

theorem collate_fn_stacks_in_order_witness:
  "map fst [(''latitude'', Scalar (2 :: int)), (''metadata'', Array [Scalar 5, Scalar 6])] =
     map fst [(''latitude'', Scalar (1 :: int)), (''metadata'', Array [Scalar 3, Scalar 4])] \<and>
   shape (Array [Scalar 5, Scalar (6 :: int)]) = shape (Array [Scalar 3, Scalar (4 :: int)]) \<and>
   collate_fn [[(''latitude'', Scalar 1), (''metadata'', Array [Scalar 3, Scalar 4])],
               [(''latitude'', Scalar 2), (''metadata'', Array [Scalar 5, Scalar (6 :: int)])]] =
     Inr [(''latitude'', Array [Scalar 1, Scalar 2]),
          (''metadata'', Array [Array [Scalar 3, Scalar 4], Array [Scalar 5, Scalar 6]])] \<and>
   shape (Array [Array [Scalar 3, Scalar 4], Array [Scalar 5, Scalar (6 :: int)]]) = [2, 2]"
proof -
  let ?a = "[(''latitude'', Scalar 1), (''metadata'', Array [Scalar 3, Scalar (4 :: int)])]"
  let ?b = "[(''latitude'', Scalar 2), (''metadata'', Array [Scalar 5, Scalar (6 :: int)])]"
  have ne: "[?a, ?b] \<noteq> []"
    by simp
  have fields: "\<forall>item \<in> set [?a, ?b]. fst ` set item = fst ` set (hd [?a, ?b])"
    by simp
  have shapes: "\<forall>item \<in> set [?a, ?b]. \<forall>key \<in> fst ` set (hd [?a, ?b]).
      map_option shape (map_of item key) = map_option shape (map_of (hd [?a, ?b]) key)"
    by simp
  have run: "collate_fn [?a, ?b] =
     Inr [(''latitude'', Array [Scalar 1, Scalar 2]),
          (''metadata'', Array [Array [Scalar 3, Scalar 4], Array [Scalar 5, Scalar 6]])]"
    by code_simp
  from collate_fn_stacks_in_order [OF ne fields shapes] run
  show ?thesis by simp
qed

text \<open>
  The claim as stated fails for samples with the same field names whose metadata
  vectors differ in length, such as a sample of an adapter with five metadata columns
  and a sample of an adapter with four: stacking them raises.
\<close>

theorem collate_fn_shape_mismatch:
  "fst (fst (SensorDataset_getitem (\<lambda>v. v) demo_adapter 1 [])) =
     Inr [(''timestamp'', Scalar 1700000001), (''latitude'', Scalar 1),
          (''longitude'', Scalar 1),
          (''metadata'', Array [Scalar 1, Scalar 1, Scalar 1, Scalar 1, Scalar 1])] \<and>
   fst (fst (SensorDataset_getitem (\<lambda>v. v) demo_adapter_chan 0 [])) =
     Inr [(''timestamp'', Scalar 1700000000), (''latitude'', Scalar 0),
          (''longitude'', Scalar 0),
          (''metadata'', Array [Scalar 0, Scalar 0, Scalar 0, Scalar 0])] \<and>
   collate_fn
     [[(''timestamp'', Scalar 1700000001), (''latitude'', Scalar 1),
       (''longitude'', Scalar 1),
       (''metadata'', Array [Scalar 1, Scalar 1, Scalar 1, Scalar 1, Scalar 1])],
      [(''timestamp'', Scalar 1700000000), (''latitude'', Scalar 0),
       (''longitude'', Scalar 0),
       (''metadata'', Array [Scalar 0, Scalar 0, Scalar 0, Scalar (0 :: int)])]] =
     Inl RuntimeError"
proof -
  have "collate_fn
     [[(''timestamp'', Scalar 1700000001), (''latitude'', Scalar 1),
       (''longitude'', Scalar 1),
       (''metadata'', Array [Scalar 1, Scalar 1, Scalar 1, Scalar 1, Scalar 1])],
      [(''timestamp'', Scalar 1700000000), (''latitude'', Scalar 0),
       (''longitude'', Scalar 0),
       (''metadata'', Array [Scalar 0, Scalar 0, Scalar 0, Scalar (0 :: int)])]] =
     Inl RuntimeError"
    by code_simp
  with demo_getitem_1 demo_getitem_chan show ?thesis
    by (simp add: SensorDataset_getitem_def)
qed

text \<open>
  C4. The length of a constructed adapter is the row count of the collection it holds,
  and that collection is the one the catalog materialised, at construction, from the
  dataset filtered by \<open>sel\<close>.
\<close>

theorem len_is_row_count:
  assumes "SensorDataset_init binding name tm pd av sensor w = (Inr self, w1)"
  shows "\<exists>lib ds1 chans.
           binding = Some lib \<and>
           sel lib ds1 tm (pd @ chans) = Inr (dataset self) \<and>
           load_dataset lib (dataset self) ''pandas'' = Inr (dataframe self) \<and>
           fst (fst (SensorDataset_len self w2)) = length (rows (dataframe self))"
proof -
  from assms obtain lib ds1 chans ds2 df where
    "binding = Some lib" "sel lib ds1 tm (pd @ chans) = Inr ds2"
    "load_dataset lib ds2 ''pandas'' = Inr df" "dataset self = ds2" "dataframe self = df"
    by (elim init_InrE) simp
  then show ?thesis
    by (auto simp: SensorDataset_len_def df_len_def)
qed

theorem len_is_row_count_witness:
  "SensorDataset_init (Some demo_lib) ''amsu'' ''2021-01-01''
     [''OBS_TIMESTAMP'', ''LAT'', ''LON''] [] ''MHS'' [] =
   (Inr demo_adapter,
    [Call_DataCatalog, Call_catalog_getitem ''amsu'', Call_load_manifest,
     Call_sel ''2021-01-01'' demo_variables, Call_load_dataset]) \<and>
   length (rows (dataframe demo_adapter)) = 2 \<and>
   fst (fst (SensorDataset_len demo_adapter [])) = 2"
  using len_is_row_count [OF demo_init_mhs, of "[]"] demo_init_mhs
  by (simp add: demo_adapter_def demo_frame_def)

text \<open>
  C5 (as amended). For a sensor type outside \<open>AMSU\<close>, \<open>ATMS\<close>, \<open>MHS\<close>, \<open>IASI\<close>,
  \<open>CrIS\<close>, construction never yields an adapter. It raises the configuration error
  \<open>Unsupported sensor type\<close> whenever the three library calls that precede the check
  (opening the catalog, looking the dataset up, loading its manifest) succeed, and then
  neither \<open>sel\<close> nor \<open>load_dataset\<close> has been called. Otherwise it raises the exception
  of the first of these calls that fails, unchanged, or \<open>NameError\<close> when the name
  \<open>DataCatalog\<close> is unbound.
\<close>

theorem unsupported_sensor_fails_construction:
  assumes "sensor \<notin> {''AMSU'', ''ATMS'', ''MHS'', ''IASI'', ''CrIS''}"
  shows "(\<exists>e. fst (SensorDataset_init binding name tm pd av sensor w) = Inl e) \<and>
         (\<forall>lib cat ds0 ds1.
            binding = Some lib \<and> DataCatalog lib True = Inr cat \<and>
            catalog_getitem lib cat name = Inr ds0 \<and> load_manifest lib ds0 = Inr ds1 \<longrightarrow>
            SensorDataset_init binding name tm pd av sensor w =
              (Inl (unsupported_sensor sensor),
               w @ [Call_DataCatalog, Call_catalog_getitem name, Call_load_manifest])) \<and>
         (binding = None \<longrightarrow>
            SensorDataset_init binding name tm pd av sensor w =
              (Inl (NameError ''DataCatalog''), w)) \<and>
         (\<forall>lib e.
            binding = Some lib \<and> DataCatalog lib True = Inl e \<longrightarrow>
            SensorDataset_init binding name tm pd av sensor w =
              (Inl e, w @ [Call_DataCatalog])) \<and>
         (\<forall>lib cat e.
            binding = Some lib \<and> DataCatalog lib True = Inr cat \<and>
            catalog_getitem lib cat name = Inl e \<longrightarrow>
            SensorDataset_init binding name tm pd av sensor w =
              (Inl e, w @ [Call_DataCatalog, Call_catalog_getitem name])) \<and>
         (\<forall>lib cat ds0 e.
            binding = Some lib \<and> DataCatalog lib True = Inr cat \<and>
            catalog_getitem lib cat name = Inr ds0 \<and> load_manifest lib ds0 = Inl e \<longrightarrow>
            SensorDataset_init binding name tm pd av sensor w =
              (Inl e, w @ [Call_DataCatalog, Call_catalog_getitem name, Call_load_manifest]))"
proof -
  from assms have none: "channel_variables sensor = None"
    using channel_variables_Some_iff [of sensor] by (cases "channel_variables sensor") auto
  then show ?thesis
    by (auto simp: SensorDataset_init_def ext_def split: option.splits sum.splits)
qed

theorem unsupported_sensor_fails_construction_witness:
  "''XYZ'' \<notin> {''AMSU'', ''ATMS'', ''MHS'', ''IASI'', ''CrIS''} \<and>
   DataCatalog demo_lib True = Inr () \<and>
   catalog_getitem demo_lib () ''amsu'' = Inr [] \<and>
   load_manifest demo_lib [] = Inr [] \<and>
   SensorDataset_init (Some demo_lib) ''amsu'' ''2021-01-01''
     [''OBS_TIMESTAMP'', ''LAT'', ''LON''] [] ''XYZ'' [] =
   (Inl (ValueError ''Unsupported sensor type: XYZ''),
    [Call_DataCatalog, Call_catalog_getitem ''amsu'', Call_load_manifest]) \<and>
   catalog_getitem demo_lib () ''iasi'' = Inl (KeyError ''iasi'') \<and>
   SensorDataset_init (Some demo_lib) ''iasi'' ''2021-01-01''
     [''OBS_TIMESTAMP'', ''LAT'', ''LON''] [] ''XYZ'' [] =
   (Inl (KeyError ''iasi''), [Call_DataCatalog, Call_catalog_getitem ''iasi''])"
proof -
  have sensor: "''XYZ'' \<notin> {''AMSU'', ''ATMS'', ''MHS'', ''IASI'', ''CrIS''}"
    by simp
  have unknown: "catalog_getitem demo_lib () ''iasi'' = Inl (KeyError ''iasi'')"
    by (simp add: demo_lib_def)
  note known = unsupported_sensor_fails_construction [OF sensor,
      where binding = "Some demo_lib" and name = "''amsu''" and tm = "''2021-01-01''"
        and pd = "[''OBS_TIMESTAMP'', ''LAT'', ''LON'']" and av = "[]" and w = "[]"]
  note other = unsupported_sensor_fails_construction [OF sensor,
      where binding = "Some demo_lib" and name = "''iasi''" and tm = "''2021-01-01''"
        and pd = "[''OBS_TIMESTAMP'', ''LAT'', ''LON'']" and av = "[]" and w = "[]"]
  from known [THEN conjunct2, THEN conjunct1, rule_format,
      where lib = demo_lib and cat = "()" and ?ds0.0 = "[]" and ?ds1.0 = "[]"]
  have "SensorDataset_init (Some demo_lib) ''amsu'' ''2021-01-01''
     [''OBS_TIMESTAMP'', ''LAT'', ''LON''] [] ''XYZ'' [] =
   (Inl (unsupported_sensor ''XYZ''),
    [Call_DataCatalog, Call_catalog_getitem ''amsu'', Call_load_manifest])"
    by (simp add: demo_lib_calls)
  moreover
  from other [THEN conjunct2, THEN conjunct2, THEN conjunct2, THEN conjunct2, THEN conjunct1,
      rule_format, where lib = demo_lib and cat = "()" and e = "KeyError ''iasi''"]
  have "SensorDataset_init (Some demo_lib) ''iasi'' ''2021-01-01''
     [''OBS_TIMESTAMP'', ''LAT'', ''LON''] [] ''XYZ'' [] =
   (Inl (KeyError ''iasi''), [Call_DataCatalog, Call_catalog_getitem ''iasi''])"
    by (simp add: demo_lib_calls unknown)
  ultimately show ?thesis using sensor unknown
    by (simp add: demo_lib_calls unsupported_sensor_def)
qed

text \<open>
  The claim as stated fails where a library call that precedes the check raises: the
  exception of that call is what construction raises, not the configuration error.
  With the name \<open>DataCatalog\<close> unbound (the import failed) it is \<open>NameError\<close>; with a
  dataset name the catalog does not know it is the catalog's \<open>KeyError\<close>.
\<close>

theorem unsupported_sensor_other_exception:
  "''XYZ'' \<notin> {''AMSU'', ''ATMS'', ''MHS'', ''IASI'', ''CrIS''} \<and>
   SensorDataset_init (None :: (unit, string list, string, int) nnja option)
     ''amsu'' ''2021-01-01'' [''OBS_TIMESTAMP'', ''LAT'', ''LON''] [] ''XYZ'' [] =
   (Inl (NameError ''DataCatalog''), []) \<and>
   SensorDataset_init (Some demo_lib) ''iasi'' ''2021-01-01''
     [''OBS_TIMESTAMP'', ''LAT'', ''LON''] [] ''XYZ'' [] =
   (Inl (KeyError ''iasi''), [Call_DataCatalog, Call_catalog_getitem ''iasi''])"
  by (simp add: SensorDataset_init_def ext_def demo_lib_def)

text \<open>
  C6. When the collection has been materialised and a requested primary descriptor is
  absent from its columns, construction raises the configuration error that names the
  first absent descriptor, so no adapter exists from which a sample could be produced.
  The check belongs to construction: every adapter that construction returns has all
  its primary descriptors among the columns of its frame. It is not repeated per
  sample: indexed access (on a frame with unique labels) never raises this
  configuration error, and neither its outcome nor the length depends on the primary
  descriptors the adapter holds.
\<close>

theorem missing_descriptor_fails_construction:
  fixes lib :: "('c, 'h, 't, 'v) nnja"
  assumes "DataCatalog lib True = Inr cat"
    and "catalog_getitem lib cat name = Inr ds0"
    and "load_manifest lib ds0 = Inr ds1"
    and "channel_variables sensor = Some chans"
    and "sel lib ds1 tm (pd @ chans) = Inr ds2"
    and "load_dataset lib ds2 ''pandas'' = Inr df"
    and "col \<in> set pd" and "col \<notin> set (columns df)"
  shows "(\<exists>c. find (\<lambda>c. c \<notin> set (columns df)) pd = Some c \<and>
            SensorDataset_init (Some lib) name tm pd av sensor w =
              (Inl (missing_column c),
               w @ [Call_DataCatalog, Call_catalog_getitem name, Call_load_manifest,
                    Call_sel tm (pd @ chans), Call_load_dataset])) \<and>
         (\<forall>binding' name' tm' pd' av' sensor' w' w1 (self :: ('c, 'h, 't, 'v) SensorDataset).
            SensorDataset_init binding' name' tm' pd' av' sensor' w' = (Inr self, w1) \<longrightarrow>
            primary_descriptors self = pd' \<and> set pd' \<subseteq> set (columns (dataframe self))) \<and>
         (\<forall>(a :: ('c, 'h, 't, 'v) SensorDataset) index w2 pd2 c.
            (distinct (columns (dataframe a)) \<longrightarrow>
               fst (fst (SensorDataset_getitem f32 a index w2)) \<noteq> Inl (missing_column c)) \<and>
            fst (fst (SensorDataset_getitem f32 (a\<lparr>primary_descriptors := pd2\<rparr>) index w2)) =
              fst (fst (SensorDataset_getitem f32 a index w2)) \<and>
            fst (fst (SensorDataset_len (a\<lparr>primary_descriptors := pd2\<rparr>) w2)) =
              fst (fst (SensorDataset_len a w2)))"
proof (intro conjI allI impI)
  from assms(7,8) obtain c where c: "find (\<lambda>c. c \<notin> set (columns df)) pd = Some c"
    by (cases "find (\<lambda>c. c \<notin> set (columns df)) pd") (auto simp: find_None_iff)
  then have "check_columns pd df = Inl (missing_column c)"
    by (simp add: check_columns_find)
  with c assms(1-6)
  show "\<exists>c. find (\<lambda>c. c \<notin> set (columns df)) pd = Some c \<and>
            SensorDataset_init (Some lib) name tm pd av sensor w =
              (Inl (missing_column c),
               w @ [Call_DataCatalog, Call_catalog_getitem name, Call_load_manifest,
                    Call_sel tm (pd @ chans), Call_load_dataset])"
    by (simp add: init_load_dataset)
next
  fix binding' name' tm' pd' av' sensor' w' w1 and self :: "('c, 'h, 't, 'v) SensorDataset"
  assume "SensorDataset_init binding' name' tm' pd' av' sensor' w' = (Inr self, w1)"
  then show "primary_descriptors self = pd'" and "set pd' \<subseteq> set (columns (dataframe self))"
    by (simp_all add: init_descriptors_present)
next
  fix a :: "('c, 'h, 't, 'v) SensorDataset" and index w2 pd2 c
  show "fst (fst (SensorDataset_getitem f32 a index w2)) \<noteq> Inl (missing_column c)"
    if "distinct (columns (dataframe a))"
    by (simp add: SensorDataset_getitem_def getitem_sample_no_missing_column)
  show "fst (fst (SensorDataset_getitem f32 (a\<lparr>primary_descriptors := pd2\<rparr>) index w2)) =
          fst (fst (SensorDataset_getitem f32 a index w2))"
    by (simp add: SensorDataset_getitem_def getitem_sample_primary_descriptors)
  show "fst (fst (SensorDataset_len (a\<lparr>primary_descriptors := pd2\<rparr>) w2)) =
          fst (fst (SensorDataset_len a w2))"
    by (simp add: SensorDataset_len_def)
qed

theorem missing_descriptor_fails_construction_witness:
  "load_dataset demo_lib demo_variables ''pandas'' = Inr (demo_frame demo_variables) \<and>
   ''SAZA'' \<in> set [''OBS_TIMESTAMP'', ''LAT'', ''LON'', ''SAZA''] \<and>
   ''SAZA'' \<notin> set (columns (demo_frame demo_variables)) \<and>
   SensorDataset_init (Some demo_lib) ''amsu'' ''2021-01-01''
     [''OBS_TIMESTAMP'', ''LAT'', ''LON'', ''SAZA''] [] ''MHS'' [] =
   (Inl (ValueError (''The dataset must include a '' @ [CHR 0x27] @ ''SAZA'' @ [CHR 0x27] @
                     '' column.'')),
    [Call_DataCatalog, Call_catalog_getitem ''amsu'', Call_load_manifest,
     Call_sel ''2021-01-01''
       [''OBS_TIMESTAMP'', ''LAT'', ''LON'', ''SAZA'', ''TMBR_00001'', ''TMBR_00002'',
        ''TMBR_00003'', ''TMBR_00004'', ''TMBR_00005''],
     Call_load_dataset]) \<and>
   set (primary_descriptors demo_adapter) \<subseteq> set (columns (dataframe demo_adapter)) \<and>
   fst (fst (SensorDataset_getitem float32_of_int
       (demo_adapter\<lparr>primary_descriptors := [''SAZA'']\<rparr>) 1 [])) =
     Inr [(''timestamp'', Scalar 1700000000), (''latitude'', Scalar 1),
          (''longitude'', Scalar 1),
          (''metadata'', Array [Scalar 1, Scalar 1, Scalar 1, Scalar 1, Scalar 1])]"
proof -
  let ?pd = "[''OBS_TIMESTAMP'', ''LAT'', ''LON'', ''SAZA'']"
  let ?chans = "[''TMBR_00001'', ''TMBR_00002'', ''TMBR_00003'', ''TMBR_00004'', ''TMBR_00005'']"
  have sel: "sel demo_lib [] ''2021-01-01'' (?pd @ ?chans) = Inr demo_variables"
    by (simp add: demo_lib_calls demo_available_def demo_variables_def)
  have load: "load_dataset demo_lib demo_variables ''pandas'' = Inr (demo_frame demo_variables)"
    by (simp add: demo_lib_calls)
  have req: "''SAZA'' \<in> set ?pd"
    by simp
  have absent: "''SAZA'' \<notin> set (columns (demo_frame demo_variables))"
    by (simp add: demo_frame_columns) (simp add: demo_variables_def)
  have first: "find (\<lambda>c. c \<notin> set (columns (demo_frame demo_variables))) ?pd = Some ''SAZA''"
    by (simp add: demo_frame_columns) (simp add: demo_variables_def)
  note checked = missing_descriptor_fails_construction
    [OF demo_lib_calls(1,2,3) channel_variables_MHS sel load req absent,
     of "[]" "[]" float32_of_int]
  from checked [THEN conjunct1] obtain c where
    c: "find (\<lambda>c. c \<notin> set (columns (demo_frame demo_variables))) ?pd = Some c"
    and run: "SensorDataset_init (Some demo_lib) ''amsu'' ''2021-01-01'' ?pd [] ''MHS'' [] =
      (Inl (missing_column c),
       [Call_DataCatalog, Call_catalog_getitem ''amsu'', Call_load_manifest,
        Call_sel ''2021-01-01'' (?pd @ ?chans), Call_load_dataset])"
    by auto
  from c first have "c = ''SAZA''"
    by simp
  moreover from checked [THEN conjunct2, THEN conjunct1, rule_format, OF demo_init_mhs]
  have "set (primary_descriptors demo_adapter) \<subseteq> set (columns (dataframe demo_adapter))"
    by simp
  moreover
  from checked [THEN conjunct2, THEN conjunct2, rule_format,
      where a = demo_adapter and index = 1 and ?w2.0 = "[]" and ?pd2.0 = "[''SAZA'']"]
    demo_getitem_f32
  have "fst (fst (SensorDataset_getitem float32_of_int
       (demo_adapter\<lparr>primary_descriptors := [''SAZA'']\<rparr>) 1 [])) =
     Inr [(''timestamp'', Scalar 1700000000), (''latitude'', Scalar 1),
          (''longitude'', Scalar 1),
          (''metadata'', Array [Scalar 1, Scalar 1, Scalar 1, Scalar 1, Scalar 1])]"
    by (simp add: SensorDataset_getitem_def)
  ultimately show ?thesis using run load req absent
    by (simp add: missing_column_def)
qed

text \<open>
  C7. Indexed access is deterministic: a second invocation with the same index, on the
  adapter as the first invocation left it and whatever calls the log holds by then,
  returns the same outcome as the first. For an index out of range both invocations
  raise \<open>IndexError\<close>. For a constructed adapter and a valid index whose row holds a
  timestamp and numbers where they are read (labels unique), both invocations return
  the same sample, the one made of that row's values.
\<close>

theorem getitem_deterministic:
  assumes "SensorDataset_getitem f32 self index w = ((r1, self1), w1)"
    and "SensorDataset_getitem f32 self1 index w' = ((r2, self2), w2)"
  shows "r2 = r1 \<and>
         (index < - int (length (rows (dataframe self))) \<or>
          int (length (rows (dataframe self))) \<le> index \<longrightarrow>
            r1 = Inl IndexError \<and> r2 = Inl IndexError) \<and>
         (\<forall>binding name tm pd av sensor w0 w0' row t la lo vs.
            SensorDataset_init binding name tm pd av sensor w0 = (Inr self, w0') \<and>
            - int (length (rows (dataframe self))) \<le> index \<and>
            index < int (length (rows (dataframe self))) \<and>
            row = zip (columns (dataframe self))
                    (rows (dataframe self) !
                       nat (if index < 0 then int (length (rows (dataframe self))) + index
                            else index)) \<and>
            distinct (columns (dataframe self)) \<and>
            map_of row ''OBS_TIMESTAMP'' = Some (Timestamp t) \<and>
            map_of row ''LAT'' = Some (Number la) \<and>
            map_of row ''LON'' = Some (Number lo) \<and>
            map (map_of row) (filter (\<lambda>c. c \<notin> set pd) (columns (dataframe self))) =
              map (\<lambda>v. Some (Number v)) vs \<longrightarrow>
            r1 = Inr [(''timestamp'', Scalar (f32 t)),
                      (''latitude'', Scalar (f32 la)),
                      (''longitude'', Scalar (f32 lo)),
                      (''metadata'', Array (map (\<lambda>v. Scalar (f32 v)) vs))] \<and>
            r2 = Inr [(''timestamp'', Scalar (f32 t)),
                      (''latitude'', Scalar (f32 la)),
                      (''longitude'', Scalar (f32 lo)),
                      (''metadata'', Array (map (\<lambda>v. Scalar (f32 v)) vs))])"
proof -
  from assms have r1: "r1 = getitem_sample f32 self index"
    and r2: "r2 = getitem_sample f32 self index"
    by (auto simp: SensorDataset_getitem_def)
  have same: "r2 = r1"
    by (simp add: r1 r2)
  have range: "r1 = Inl IndexError \<and> r2 = Inl IndexError"
    if "index < - int (length (rows (dataframe self))) \<or>
        int (length (rows (dataframe self))) \<le> index"
    using that by (simp add: r1 r2 getitem_sample_out_of_range)
  have sample: "r1 = Inr [(''timestamp'', Scalar (f32 t)),
                      (''latitude'', Scalar (f32 la)),
                      (''longitude'', Scalar (f32 lo)),
                      (''metadata'', Array (map (\<lambda>v. Scalar (f32 v)) vs))] \<and>
            r2 = Inr [(''timestamp'', Scalar (f32 t)),
                      (''latitude'', Scalar (f32 la)),
                      (''longitude'', Scalar (f32 lo)),
                      (''metadata'', Array (map (\<lambda>v. Scalar (f32 v)) vs))]"
    if init: "SensorDataset_init binding name tm pd av sensor w0 = (Inr self, w0')"
      and lo: "- int (length (rows (dataframe self))) \<le> index"
      and hi: "index < int (length (rows (dataframe self)))"
      and row: "row = zip (columns (dataframe self))
                    (rows (dataframe self) !
                       nat (if index < 0 then int (length (rows (dataframe self))) + index
                            else index))"
      and cells: "map_of row ''OBS_TIMESTAMP'' = Some (Timestamp t)"
        "map_of row ''LAT'' = Some (Number la)" "map_of row ''LON'' = Some (Number lo)"
        "map (map_of row) (filter (\<lambda>c. c \<notin> set pd) (columns (dataframe self))) =
              map (\<lambda>v. Some (Number v)) vs"
    for binding name tm pd av sensor w0 w0' row t la lo vs
  proof -
    from init have mc: "metadata_columns self =
        filter (\<lambda>c. c \<notin> set pd) (columns (dataframe self))"
      by (elim init_InrE) simp
    from getitem_sample_of_row [OF mc lo hi row cells] show ?thesis
      by (simp add: r1 r2)
  qed
  from same range sample show ?thesis
    by blast
qed

theorem getitem_deterministic_witness:
  "SensorDataset_init (Some demo_lib) ''amsu'' ''2021-01-01''
     [''OBS_TIMESTAMP'', ''LAT'', ''LON''] [] ''MHS'' [] =
   (Inr demo_adapter,
    [Call_DataCatalog, Call_catalog_getitem ''amsu'', Call_load_manifest,
     Call_sel ''2021-01-01'' demo_variables, Call_load_dataset]) \<and>
   SensorDataset_getitem float32_of_int demo_adapter 1 [] =
     ((Inr [(''timestamp'', Scalar 1700000000), (''latitude'', Scalar 1),
            (''longitude'', Scalar 1),
            (''metadata'', Array [Scalar 1, Scalar 1, Scalar 1, Scalar 1, Scalar 1])],
       demo_adapter), []) \<and>
   SensorDataset_getitem float32_of_int demo_adapter 1 [Call_load_manifest] =
     ((Inr [(''timestamp'', Scalar 1700000000), (''latitude'', Scalar 1),
            (''longitude'', Scalar 1),
            (''metadata'', Array [Scalar 1, Scalar 1, Scalar 1, Scalar 1, Scalar 1])],
       demo_adapter), [Call_load_manifest]) \<and>
   float32_of_int 1700000001 = 1700000000 \<and>
   SensorDataset_getitem float32_of_int demo_adapter 2 [] =
     ((Inl IndexError, demo_adapter), [])"
proof -
  let ?row = "zip demo_variables
    [Timestamp 1700000001, Number 1, Number 1, Number 1, Number 1, Number 1, Number 1,
     Number (1 :: int)]"
  let ?s = "[(''timestamp'', Scalar 1700000000), (''latitude'', Scalar 1),
            (''longitude'', Scalar 1),
            (''metadata'', Array [Scalar 1, Scalar 1, Scalar 1, Scalar 1, Scalar (1 :: int)])]"
  have first: "SensorDataset_getitem float32_of_int demo_adapter 1 [] =
      ((Inr ?s, demo_adapter), ([] :: string call list))"
    by (simp add: SensorDataset_getitem_def demo_getitem_f32)
  have second: "SensorDataset_getitem float32_of_int demo_adapter 1 [Call_load_manifest] =
      ((Inr ?s, demo_adapter), [Call_load_manifest :: string call])"
    by (simp add: SensorDataset_getitem_def demo_getitem_f32)
  have cols: "columns (dataframe demo_adapter) = demo_variables"
    by (simp add: demo_adapter_def demo_frame_columns)
  have rows: "rows (dataframe demo_adapter) =
     [[Timestamp 1700000000, Number 0, Number 0, Number 0, Number 0, Number 0, Number 0, Number 0],
      [Timestamp 1700000001, Number 1, Number 1, Number 1, Number 1, Number 1, Number 1, Number 1]]"
    by code_simp
  have hyps: "SensorDataset_init (Some demo_lib) ''amsu'' ''2021-01-01''
       [''OBS_TIMESTAMP'', ''LAT'', ''LON''] [] ''MHS'' [] =
      (Inr demo_adapter,
       [Call_DataCatalog, Call_catalog_getitem ''amsu'', Call_load_manifest,
        Call_sel ''2021-01-01'' demo_variables, Call_load_dataset]) \<and>
     - int (length (rows (dataframe demo_adapter))) \<le> 1 \<and>
     1 < int (length (rows (dataframe demo_adapter))) \<and>
     ?row = zip (columns (dataframe demo_adapter))
       (rows (dataframe demo_adapter) !
          nat (if (1 :: int) < 0 then int (length (rows (dataframe demo_adapter))) + 1 else 1)) \<and>
     distinct (columns (dataframe demo_adapter)) \<and>
     map_of ?row ''OBS_TIMESTAMP'' = Some (Timestamp 1700000001) \<and>
     map_of ?row ''LAT'' = Some (Number 1) \<and>
     map_of ?row ''LON'' = Some (Number 1) \<and>
     map (map_of ?row)
       (filter (\<lambda>c. c \<notin> set [''OBS_TIMESTAMP'', ''LAT'', ''LON''])
          (columns (dataframe demo_adapter))) =
       map (\<lambda>v. Some (Number v)) [1, 1, 1, 1, 1]"
    by (simp add: demo_init_mhs cols rows) (simp add: demo_variables_def)
  from getitem_deterministic [OF first second, THEN conjunct2, THEN conjunct2, rule_format,
      OF hyps]
  have rounded: "float32_of_int 1700000001 = 1700000000"
    by simp
  have outside: "SensorDataset_getitem float32_of_int demo_adapter 2 [] =
      ((fst (fst (SensorDataset_getitem float32_of_int demo_adapter 2 [])), demo_adapter),
       ([] :: string call list))"
    by (simp add: SensorDataset_getitem_def)
  have "(2 :: int) < - int (length (rows (dataframe demo_adapter))) \<or>
        int (length (rows (dataframe demo_adapter))) \<le> 2"
    by (simp add: rows)
  from getitem_deterministic [OF outside outside, THEN conjunct2, THEN conjunct1, rule_format,
      OF this]
  have "SensorDataset_getitem float32_of_int demo_adapter 2 [] =
      ((Inl IndexError, demo_adapter), ([] :: string call list))"
    by (simp add: SensorDataset_getitem_def)
  with demo_init_mhs first second rounded show ?thesis
    by simp
qed

text \<open>
  C8. The catalog is queried and the collection materialised during construction: a
  successful construction makes exactly five calls into the library, one \<open>sel\<close> and one
  \<open>load_dataset\<close> among them, and the frame it stores is the one \<open>load_dataset\<close>
  returned. The length and indexed-access operations make no call (the log is as
  before) and leave the adapter as it was: no field changes, so no sample is cached.
\<close>

theorem access_leaves_adapter_unchanged:
  assumes "SensorDataset_init binding name tm pd av sensor w = (Inr self, w1)"
  shows "(\<exists>lib chans.
            binding = Some lib \<and> channel_variables sensor = Some chans \<and>
            w1 = w @ [Call_DataCatalog, Call_catalog_getitem name, Call_load_manifest,
                      Call_sel tm (pd @ chans), Call_load_dataset] \<and>
            load_dataset lib (dataset self) ''pandas'' = Inr (dataframe self)) \<and>
         snd (SensorDataset_len self w2) = w2 \<and>
         snd (fst (SensorDataset_len self w2)) = self \<and>
         snd (SensorDataset_getitem f32 self index w2) = w2 \<and>
         snd (fst (SensorDataset_getitem f32 self index w2)) = self"
proof -
  from assms obtain lib chans ds2 df where
    "binding = Some lib" "channel_variables sensor = Some chans"
    "load_dataset lib ds2 ''pandas'' = Inr df" "dataset self = ds2" "dataframe self = df"
    "w1 = w @ [Call_DataCatalog, Call_catalog_getitem name, Call_load_manifest,
               Call_sel tm (pd @ chans), Call_load_dataset]"
    by (elim init_InrE) simp
  then show ?thesis
    by (simp add: SensorDataset_len_def SensorDataset_getitem_def)
qed

theorem access_leaves_adapter_unchanged_witness:
  "SensorDataset_init (Some demo_lib) ''amsu'' ''2021-01-01''
     [''OBS_TIMESTAMP'', ''LAT'', ''LON''] [] ''MHS'' [] =
   (Inr demo_adapter,
    [Call_DataCatalog, Call_catalog_getitem ''amsu'', Call_load_manifest,
     Call_sel ''2021-01-01'' demo_variables, Call_load_dataset]) \<and>
   SensorDataset_len demo_adapter [Call_load_dataset] = ((2, demo_adapter), [Call_load_dataset]) \<and>
   snd (SensorDataset_getitem (\<lambda>v. v) demo_adapter 1 [Call_load_dataset]) = [Call_load_dataset] \<and>
   snd (fst (SensorDataset_getitem (\<lambda>v. v) demo_adapter 1 [Call_load_dataset])) = demo_adapter"
  using access_leaves_adapter_unchanged [OF demo_init_mhs, of "[Call_load_dataset]" "\<lambda>v. v" 1]
    demo_init_mhs
  by (simp add: SensorDataset_len_def df_len_def demo_adapter_def demo_frame_def)

text \<open>
  C9 (as amended). Indexed access reads the columns labelled \<open>OBS_TIMESTAMP\<close>, \<open>LAT\<close> and
  \<open>LON\<close>, whatever primary descriptors the adapter was configured with: a sample it
  returns holds the row's values under these three labels, so the frame has the three
  columns; for a valid index it raises \<open>KeyError\<close> for the first of the three labels
  that the frame lacks (the timestamp being read before \<open>LAT\<close>, and \<open>LAT\<close> before
  \<open>LON\<close>); and its outcome does not depend on the configured descriptors. When the
  sensor type is supported, the library calls succeed and the frame has exactly the
  selected columns, a list of primary descriptors that lacks one of the three labels
  passes construction and makes every indexed access raise.
\<close>

theorem getitem_reads_fixed_columns:
  fixes a :: "('c, 'h, 't, 'v) SensorDataset"
  shows "(\<forall>s. fst (fst (SensorDataset_getitem f32 a index w)) = Inr s \<longrightarrow>
            {''OBS_TIMESTAMP'', ''LAT'', ''LON''} \<subseteq> set (columns (dataframe a)) \<and>
            (\<exists>row t la lo.
               df_iloc (dataframe a) index = Inr row \<and>
               map_of row ''OBS_TIMESTAMP'' = Some (Timestamp t) \<and>
               map_of row ''LAT'' = Some (Number la) \<and>
               map_of row ''LON'' = Some (Number lo) \<and>
               map_of s ''timestamp'' = Some (Scalar (f32 t)) \<and>
               map_of s ''latitude'' = Some (Scalar (f32 la)) \<and>
               map_of s ''longitude'' = Some (Scalar (f32 lo)))) \<and>
         fst (fst (SensorDataset_getitem f32 (a\<lparr>primary_descriptors := pd'\<rparr>) index w)) =
           fst (fst (SensorDataset_getitem f32 a index w)) \<and>
         (\<forall>row. df_iloc (dataframe a) index = Inr row \<and>
            ''OBS_TIMESTAMP'' \<notin> set (columns (dataframe a)) \<longrightarrow>
            fst (fst (SensorDataset_getitem f32 a index w)) = Inl (KeyError ''OBS_TIMESTAMP'')) \<and>
         (\<forall>row t. df_iloc (dataframe a) index = Inr row \<and>
            distinct (columns (dataframe a)) \<and>
            map_of row ''OBS_TIMESTAMP'' = Some (Timestamp t) \<and>
            ''LAT'' \<notin> set (columns (dataframe a)) \<longrightarrow>
            fst (fst (SensorDataset_getitem f32 a index w)) = Inl (KeyError ''LAT'')) \<and>
         (\<forall>row t c. df_iloc (dataframe a) index = Inr row \<and>
            distinct (columns (dataframe a)) \<and>
            map_of row ''OBS_TIMESTAMP'' = Some (Timestamp t) \<and>
            map_of row ''LAT'' = Some c \<and>
            ''LON'' \<notin> set (columns (dataframe a)) \<longrightarrow>
            fst (fst (SensorDataset_getitem f32 a index w)) = Inl (KeyError ''LON'')) \<and>
         (DataCatalog lib True = Inr cat \<and>
          catalog_getitem lib cat name = Inr ds0 \<and>
          load_manifest lib ds0 = Inr ds1 \<and>
          channel_variables sensor = Some chans \<and>
          sel lib ds1 tm (pd @ chans) = Inr ds2 \<and>
          load_dataset lib ds2 ''pandas'' = Inr df \<and>
          set (columns df) = set (pd @ chans) \<and>
          \<not> {''OBS_TIMESTAMP'', ''LAT'', ''LON''} \<subseteq> set pd \<longrightarrow>
          (\<exists>self. SensorDataset_init (Some lib) name tm pd av sensor w0 =
              (Inr self, w0 @ [Call_DataCatalog, Call_catalog_getitem name, Call_load_manifest,
                               Call_sel tm (pd @ chans), Call_load_dataset]) \<and>
            primary_descriptors self = pd \<and> dataframe self = df \<and>
            (\<forall>i w2. \<exists>e. fst (fst (SensorDataset_getitem f32 self i w2)) = Inl e)))"
proof -
  have got: "fst (fst (SensorDataset_getitem f32 a index w)) = getitem_sample f32 a index"
    by (simp add: SensorDataset_getitem_def)
  have reads: "\<forall>s. fst (fst (SensorDataset_getitem f32 a index w)) = Inr s \<longrightarrow>
            {''OBS_TIMESTAMP'', ''LAT'', ''LON''} \<subseteq> set (columns (dataframe a)) \<and>
            (\<exists>row t la lo.
               df_iloc (dataframe a) index = Inr row \<and>
               map_of row ''OBS_TIMESTAMP'' = Some (Timestamp t) \<and>
               map_of row ''LAT'' = Some (Number la) \<and>
               map_of row ''LON'' = Some (Number lo) \<and>
               map_of s ''timestamp'' = Some (Scalar (f32 t)) \<and>
               map_of s ''latitude'' = Some (Scalar (f32 la)) \<and>
               map_of s ''longitude'' = Some (Scalar (f32 lo)))"
    unfolding got
    using getitem_sample_needs_columns [of f32 a index] getitem_sample_reads [of f32 a index]
    by simp
  have indep: "fst (fst (SensorDataset_getitem f32 (a\<lparr>primary_descriptors := pd'\<rparr>) index w)) =
           fst (fst (SensorDataset_getitem f32 a index w))"
    by (simp add: SensorDataset_getitem_def getitem_sample_primary_descriptors)
  have obs: "\<forall>row. df_iloc (dataframe a) index = Inr row \<and>
            ''OBS_TIMESTAMP'' \<notin> set (columns (dataframe a)) \<longrightarrow>
            fst (fst (SensorDataset_getitem f32 a index w)) = Inl (KeyError ''OBS_TIMESTAMP'')"
    unfolding got by (auto intro: getitem_sample_KeyError_OBS)
  have lat: "\<forall>row t. df_iloc (dataframe a) index = Inr row \<and>
            distinct (columns (dataframe a)) \<and>
            map_of row ''OBS_TIMESTAMP'' = Some (Timestamp t) \<and>
            ''LAT'' \<notin> set (columns (dataframe a)) \<longrightarrow>
            fst (fst (SensorDataset_getitem f32 a index w)) = Inl (KeyError ''LAT'')"
    unfolding got by (auto intro: getitem_sample_KeyError_LAT)
  have lon: "\<forall>row t c. df_iloc (dataframe a) index = Inr row \<and>
            distinct (columns (dataframe a)) \<and>
            map_of row ''OBS_TIMESTAMP'' = Some (Timestamp t) \<and>
            map_of row ''LAT'' = Some c \<and>
            ''LON'' \<notin> set (columns (dataframe a)) \<longrightarrow>
            fst (fst (SensorDataset_getitem f32 a index w)) = Inl (KeyError ''LON'')"
    unfolding got by (auto intro: getitem_sample_KeyError_LON)
  have fails: "DataCatalog lib True = Inr cat \<and>
          catalog_getitem lib cat name = Inr ds0 \<and>
          load_manifest lib ds0 = Inr ds1 \<and>
          channel_variables sensor = Some chans \<and>
          sel lib ds1 tm (pd @ chans) = Inr ds2 \<and>
          load_dataset lib ds2 ''pandas'' = Inr df \<and>
          set (columns df) = set (pd @ chans) \<and>
          \<not> {''OBS_TIMESTAMP'', ''LAT'', ''LON''} \<subseteq> set pd \<longrightarrow>
          (\<exists>self. SensorDataset_init (Some lib) name tm pd av sensor w0 =
              (Inr self, w0 @ [Call_DataCatalog, Call_catalog_getitem name, Call_load_manifest,
                               Call_sel tm (pd @ chans), Call_load_dataset]) \<and>
            primary_descriptors self = pd \<and> dataframe self = df \<and>
            (\<forall>i w2. \<exists>e. fst (fst (SensorDataset_getitem f32 self i w2)) = Inl e))"
  proof
    assume "DataCatalog lib True = Inr cat \<and>
          catalog_getitem lib cat name = Inr ds0 \<and>
          load_manifest lib ds0 = Inr ds1 \<and>
          channel_variables sensor = Some chans \<and>
          sel lib ds1 tm (pd @ chans) = Inr ds2 \<and>
          load_dataset lib ds2 ''pandas'' = Inr df \<and>
          set (columns df) = set (pd @ chans) \<and>
          \<not> {''OBS_TIMESTAMP'', ''LAT'', ''LON''} \<subseteq> set pd"
    then show "\<exists>self. SensorDataset_init (Some lib) name tm pd av sensor w0 =
              (Inr self, w0 @ [Call_DataCatalog, Call_catalog_getitem name, Call_load_manifest,
                               Call_sel tm (pd @ chans), Call_load_dataset]) \<and>
            primary_descriptors self = pd \<and> dataframe self = df \<and>
            (\<forall>i w2. \<exists>e. fst (fst (SensorDataset_getitem f32 self i w2)) = Inl e)"
      by (elim conjE) (rule access_fails_without_fixed_columns)
  qed
  from reads indep obs lat lon fails show ?thesis
    by (intro conjI)
qed

theorem getitem_reads_fixed_columns_witness:
  "fst (fst (SensorDataset_getitem float32_of_int demo_adapter 1 [])) =
     Inr [(''timestamp'', Scalar 1700000000), (''latitude'', Scalar 1),
          (''longitude'', Scalar 1),
          (''metadata'', Array [Scalar 1, Scalar 1, Scalar 1, Scalar 1, Scalar 1])] \<and>
   {''OBS_TIMESTAMP'', ''LAT'', ''LON''} \<subseteq> set (columns (dataframe demo_adapter)) \<and>
   fst (fst (SensorDataset_getitem float32_of_int demo_adapter_no_obs 0 [])) =
     Inl (KeyError ''OBS_TIMESTAMP'') \<and>
   fst (fst (SensorDataset_getitem float32_of_int demo_adapter_ts 0 [])) =
     Inl (KeyError ''LAT'') \<and>
   fst (fst (SensorDataset_getitem float32_of_int demo_adapter_no_lon 0 [])) =
     Inl (KeyError ''LON'') \<and>
   set (columns (demo_frame demo_variables_ts)) =
     set ([''OBS_TIMESTAMP''] @
          [''TMBR_00001'', ''TMBR_00002'', ''TMBR_00003'', ''TMBR_00004'', ''TMBR_00005'']) \<and>
   \<not> {''OBS_TIMESTAMP'', ''LAT'', ''LON''} \<subseteq> set [''OBS_TIMESTAMP''] \<and>
   SensorDataset_init (Some demo_lib) ''amsu'' ''2021-01-01'' [''OBS_TIMESTAMP''] [] ''MHS'' [] =
   (Inr demo_adapter_ts,
    [Call_DataCatalog, Call_catalog_getitem ''amsu'', Call_load_manifest,
     Call_sel ''2021-01-01'' demo_variables_ts, Call_load_dataset]) \<and>
   fst (fst (SensorDataset_getitem float32_of_int demo_adapter_ts 2 [])) = Inl IndexError"
proof -
  let ?pd = "[''OBS_TIMESTAMP'']"
  let ?chans = "[''TMBR_00001'', ''TMBR_00002'', ''TMBR_00003'', ''TMBR_00004'', ''TMBR_00005'']"
  let ?row = "zip demo_variables_ts
    [Timestamp 1700000000, Number 0, Number 0, Number 0, Number 0, Number (0 :: int)]"
  have sample: "fst (fst (SensorDataset_getitem float32_of_int demo_adapter 1 [])) =
     Inr [(''timestamp'', Scalar 1700000000), (''latitude'', Scalar 1),
          (''longitude'', Scalar 1),
          (''metadata'', Array [Scalar 1, Scalar 1, Scalar 1, Scalar 1, Scalar 1])]"
    by (simp add: SensorDataset_getitem_def demo_getitem_f32)
  from getitem_reads_fixed_columns [THEN conjunct1, rule_format, OF sample]
  have present: "{''OBS_TIMESTAMP'', ''LAT'', ''LON''} \<subseteq> set (columns (dataframe demo_adapter))"
    by simp
  have cols: "columns (dataframe demo_adapter_ts) = demo_variables_ts"
    by (simp add: demo_adapter_ts_def demo_frame_columns)
  have row: "df_iloc (dataframe demo_adapter_ts) 0 = Inr ?row"
    by code_simp
  have lat_hyps: "df_iloc (dataframe demo_adapter_ts) 0 = Inr ?row \<and>
      distinct (columns (dataframe demo_adapter_ts)) \<and>
      map_of ?row ''OBS_TIMESTAMP'' = Some (Timestamp 1700000000) \<and>
      ''LAT'' \<notin> set (columns (dataframe demo_adapter_ts))"
    by (simp add: row cols) (simp add: demo_variables_ts_def)
  from getitem_reads_fixed_columns
    [where a = demo_adapter_ts and index = 0 and ?f32.0 = float32_of_int and w = "[]",
     THEN conjunct2, THEN conjunct2, THEN conjunct2, THEN conjunct1, rule_format, OF lat_hyps]
  have lat: "fst (fst (SensorDataset_getitem float32_of_int demo_adapter_ts 0 [])) =
     Inl (KeyError ''LAT'')" .
  have sel: "sel demo_lib [] ''2021-01-01'' (?pd @ ?chans) = Inr demo_variables_ts"
    by (simp add: demo_lib_calls demo_available_def demo_variables_ts_def)
  have load: "load_dataset demo_lib demo_variables_ts ''pandas'' =
      Inr (demo_frame demo_variables_ts)"
    by (simp add: demo_lib_calls)
  have exact: "set (columns (demo_frame demo_variables_ts)) = set (?pd @ ?chans)"
    by (simp add: demo_frame_columns) (simp add: demo_variables_ts_def)
  have lacking: "\<not> {''OBS_TIMESTAMP'', ''LAT'', ''LON''} \<subseteq> set ?pd"
    by simp
  note fixed = getitem_reads_fixed_columns
    [where ?f32.0 = float32_of_int and a = demo_adapter_ts and index = 0 and w = "[]"
       and lib = demo_lib and cat = "()" and name = "''amsu''" and ?ds0.0 = "[]"
       and ?ds1.0 = "[]" and sensor = "''MHS''" and chans = ?chans
       and tm = "''2021-01-01''" and pd = ?pd and ?ds2.0 = demo_variables_ts
       and df = "demo_frame demo_variables_ts" and av = "[]" and ?w0.0 = "[]",
     THEN conjunct2, THEN conjunct2, THEN conjunct2, THEN conjunct2, THEN conjunct2]
  from fixed demo_lib_calls(1,2,3) channel_variables_MHS sel load
    exact lacking demo_init_ts sample present lat demo_getitem_missing
  show ?thesis
    by (simp add: SensorDataset_getitem_def demo_frame_columns)
qed

text \<open>
  The claim as stated fails on a catalog that returns columns that were not selected:
  with \<open>OBS_TIMESTAMP\<close> as the only primary descriptor, on a catalog that adds \<open>LAT\<close>
  and \<open>LON\<close> to the selection, construction succeeds and indexed access returns a sample.
\<close>

theorem getitem_succeeds_on_unselected_columns:
  "\<not> {''OBS_TIMESTAMP'', ''LAT'', ''LON''} \<subseteq> set [''OBS_TIMESTAMP''] \<and>
   SensorDataset_init (Some extra_lib) ''amsu'' ''2021-01-01'' [''OBS_TIMESTAMP''] [] ''MHS'' [] =
   (Inr extra_adapter,
    [Call_DataCatalog, Call_catalog_getitem ''amsu'', Call_load_manifest,
     Call_sel ''2021-01-01'' demo_variables_ts, Call_load_dataset]) \<and>
   fst (fst (SensorDataset_getitem float32_of_int extra_adapter 1 [])) =
     Inr [(''timestamp'', Scalar 1700000000), (''latitude'', Scalar 1),
          (''longitude'', Scalar 1),
          (''metadata'', Array [Scalar 1, Scalar 1, Scalar 1, Scalar 1, Scalar 1,
                                Scalar 1, Scalar 1])]"
  using demo_init_extra demo_getitem_extra
  by (simp add: SensorDataset_getitem_def)

text \<open>
  C10. On the empty list the batch stacker raises \<open>IndexError\<close>. On a non-empty list,
  the record it returns has the fields of the first sample, in the first sample's
  order, whatever further fields later samples have.
\<close>

theorem collate_fn_fields_of_first:
  "collate_fn ([] :: (string \<times> 'f tensor) list list) = Inl IndexError \<and>
   (\<forall>r. collate_fn (item0 # items) = Inr r \<longrightarrow>
      map fst r = map fst item0 \<and> fst ` set r = fst ` set item0)"
proof -
  have "map fst r = map fst item0 \<and> fst ` set r = fst ` set item0"
    if "collate_fn (item0 # items) = Inr r" for r
  proof -
    from that have "map fst r = map fst item0"
      by (simp add: collate_fn_def collate_keys_fields)
    then show ?thesis by (metis list.set_map)
  qed
  then show ?thesis by (simp add: collate_fn_def)
qed


theorem collate_fn_fields_of_first_witness:
  "collate_fn ([] :: (string \<times> int tensor) list list) = Inl IndexError \<and>
   collate_fn [[(''latitude'', Scalar 1)],
               [(''latitude'', Scalar 2), (''elevation'', Scalar (3 :: int))]] =
     Inr [(''latitude'', Array [Scalar 1, Scalar 2])] \<and>
   map fst [(''latitude'', Array [Scalar 1, Scalar (2 :: int)])] =
     map fst [(''latitude'', Scalar (1 :: int))]"
proof -
  have run: "collate_fn [[(''latitude'', Scalar 1)],
               [(''latitude'', Scalar 2), (''elevation'', Scalar (3 :: int))]] =
     Inr [(''latitude'', Array [Scalar 1, Scalar 2])]"
    by code_simp
  from collate_fn_fields_of_first
    [of "[(''latitude'', Scalar 1)]"
        "[[(''latitude'', Scalar 2), (''elevation'', Scalar (3 :: int))]]"] run
  show ?thesis by simp
qed

end
